theory Spec2Isabelle
  imports Main "HOL-Library.AList"
begin

section \<open>The AMI resource of aws/resource_aws_ami.go\<close>

text \<open>
  A shallow embedding of the four lifecycle functions of the \<open>aws_ami\<close> resource,
  \<open>resourceAwsAmiCreate\<close>, \<open>resourceAwsAmiRead\<close>, \<open>resourceAwsAmiUpdate\<close> and
  \<open>resourceAwsAmiDelete\<close>, and of the two waits built on \<open>AMIStateRefreshFunc\<close>.

  The EC2 API is a record of functions over an arbitrary world \<open>'w\<close>: each call takes the
  world and returns its answer with the next world, so every theorem below holds for
  every behaviour of the remote side. Each call made through the client is appended to a
  log together with the error it returned; "no call is issued" and "a delete was
  attempted" are statements about that log.
\<close>

subsection \<open>Errors\<close>

text \<open>
  Go errors are values. \<open>AWSErr code message\<close> is an error of the AWS SDK,
  \<open>ErrorString\<close> one made by \<open>errors.New\<close> or \<open>fmt.Errorf\<close>,
  \<open>UnexpectedStateError\<close> and \<open>TimeoutError\<close> are the two errors of the polling
  loop, and \<open>Panic\<close> stands for a run-time panic (a nil dereference or a failed type
  assertion).
\<close>

datatype error =
    AWSErr string string
  | ErrorString string
  | UnexpectedStateError string
  | TimeoutError string
  | Panic string

text \<open>The text of an error, \<open>err.Error()\<close>, as the \<open>%s\<close> and \<open>%v\<close> verbs print it.\<close>

fun Error :: "error \<Rightarrow> string" where
  "Error (AWSErr code msg) = code @ '': '' @ msg"
| "Error (ErrorString s) = s"
| "Error (UnexpectedStateError st) = ''unexpected state '' @ st"
| "Error (TimeoutError st) = ''timeout while waiting for state (last state: '' @ st @ '')''"
| "Error (Panic s) = ''panic: '' @ s"

text \<open>
  Modelled from the spec: the helper \<open>isAWSErr\<close> is declared outside this file. The spec
  speaks of "an error classified as not found"; every use in this file passes the empty
  message, so the test is on the error code of an AWS error alone.
\<close>

fun isAWSErr :: "error \<Rightarrow> string \<Rightarrow> bool" where
  "isAWSErr (AWSErr code msg) c = (code = c)"
| "isAWSErr _ c = False"

text \<open>
  Modelled from the spec: the helper \<open>isResourceTimeoutError\<close> is declared outside this
  file; it recognises the timeout error of the polling loop.
\<close>

fun isResourceTimeoutError :: "error option \<Rightarrow> bool" where
  "isResourceTimeoutError (Some (TimeoutError st)) = True"
| "isResourceTimeoutError _ = False"

subsection \<open>Configuration and API data\<close>

type_synonym tags = "(string \<times> string) list"

text \<open>
  One element of the \<open>ebs_block_device\<close> set, a \<open>map[string]interface{}\<close>. The source
  tests the keys \<open>iops\<close> and \<open>volume_size\<close> for presence (\<open>if iops, ok := ...\<close>), so they
  are options; the other keys are read unconditionally.
\<close>

record EbsBlockDev =
  delete_on_termination :: bool
  device_name :: string
  encrypted :: bool
  iops :: "int option"
  snapshot_id :: string
  volume_size :: "int option"
  volume_type :: string

record EphemeralBlockDev =
  eph_device_name :: string
  virtual_name :: string

text \<open>
  \<open>ec2.EbsBlockDevice\<close> and \<open>ec2.BlockDeviceMapping\<close>: every field is a pointer, \<open>None\<close>
  is nil, that is, a field absent from the request or the response.
\<close>

record EbsBlockDevice =
  DeleteOnTermination :: "bool option"
  Encrypted :: "bool option"
  Iops :: "int option"
  SnapshotId :: "string option"
  VolumeSize :: "int option"
  VolumeType :: "string option"

record BlockDeviceMapping =
  DeviceName :: "string option"
  VirtualName :: "string option"
  Ebs :: "EbsBlockDevice option"

text \<open>
  \<open>ec2.RegisterImageInput\<close>. The fields the source always sets through \<open>aws.String\<close> or
  \<open>aws.Bool\<close> are plain values; \<open>KernelId\<close> and \<open>RamdiskId\<close> are set conditionally.
\<close>

record RegisterImageInput =
  Name :: string
  Description :: string
  Architecture :: string
  ImageLocation :: string
  RootDeviceName :: string
  SriovNetSupport :: string
  VirtualizationType :: string
  EnaSupport :: bool
  KernelId :: "string option"
  RamdiskId :: "string option"
  BlockDeviceMappings :: "BlockDeviceMapping list"

text \<open>
  \<open>ec2.Image\<close> as a describe call returns it. \<open>State\<close> is dereferenced everywhere
  without a check and is taken as present; the scalar attributes are passed to \<open>d.Set\<close>
  as they are.
\<close>

record Image =
  ImageState :: string
  ImageName :: string
  ImageDescription :: string
  ImageImageLocation :: string
  ImageArchitecture :: string
  ImageKernelId :: string
  ImageRamdiskId :: string
  ImageRootDeviceName :: string
  ImageSriovNetSupport :: string
  ImageVirtualizationType :: string
  ImageEnaSupport :: bool
  ImageBlockDeviceMappings :: "BlockDeviceMapping list"
  ImageTags :: tags

record DescribeImagesOutput =
  Images :: "Image list"

definition ImageStatePending :: string where "ImageStatePending = ''pending''"
definition ImageStateAvailable :: string where "ImageStateAvailable = ''available''"
definition ImageStateFailed :: string where "ImageStateFailed = ''failed''"
definition ImageStateDeregistered :: string where "ImageStateDeregistered = ''deregistered''"

text \<open>
  \<open>schema.ResourceData\<close>: the identifier, the new-resource mark, the attributes of the
  schema, the values of \<open>tags\<close> and \<open>description\<close> in the prior state (what
  \<open>GetChange\<close> returns as the old value; no function of this file reads the old
  description), and the two timeouts. Time is not modelled: a timeout is the number of further
  probes that fit into it after the first one. The two set-valued attributes are held in
  the order \<open>Set.List()\<close> yields them.
\<close>

record ResourceData =
  ResId :: string
  IsNewResource :: bool
  name :: string
  description :: string
  image_location :: string
  architecture :: string
  kernel_id :: string
  ramdisk_id :: string
  root_device_name :: string
  root_snapshot_id :: string
  sriov_net_support :: string
  virtualization_type :: string
  ena_support :: bool
  arn :: string
  manage_ebs_snapshots :: bool
  ebs_block_device :: "EbsBlockDev list"
  ephemeral_block_device :: "EphemeralBlockDev list"
  tags :: tags
  tags_old :: tags
  description_old :: string
  TimeoutCreate :: nat
  TimeoutDelete :: nat

subsection \<open>The EC2 client\<close>

datatype api_call =
    RegisterImageCall RegisterImageInput
  | DescribeImagesCall string
  | DeregisterImageCall string
  | DeleteSnapshotCall string
  | ModifyImageAttributeCall string string
  | CreateTagsCall string tags
  | DeleteTagsCall string "string list"

text \<open>
  The operations of \<open>*ec2.EC2\<close> this file calls. \<open>RegisterImage\<close> answers with the
  \<open>ImageId\<close> pointer of its output, \<open>DescribeImages\<close> with the output pointer; both come
  with the error, as the Go functions return a pair.
\<close>

record 'w EC2 =
  RegisterImage :: "RegisterImageInput \<Rightarrow> 'w \<Rightarrow> (string option \<times> error option) \<times> 'w"
  DescribeImages :: "string \<Rightarrow> 'w \<Rightarrow> (DescribeImagesOutput option \<times> error option) \<times> 'w"
  DeregisterImage :: "string \<Rightarrow> 'w \<Rightarrow> error option \<times> 'w"
  DeleteSnapshot :: "string \<Rightarrow> 'w \<Rightarrow> error option \<times> 'w"
  ModifyImageAttribute :: "string \<Rightarrow> string \<Rightarrow> 'w \<Rightarrow> error option \<times> 'w"
  CreateTags :: "string \<Rightarrow> tags \<Rightarrow> 'w \<Rightarrow> error option \<times> 'w"
  DeleteTags :: "string \<Rightarrow> string list \<Rightarrow> 'w \<Rightarrow> error option \<times> 'w"

text \<open>The remote world together with the log of the calls made so far and their errors.\<close>

type_synonym 'w session = "'w \<times> (api_call \<times> error option) list"

definition callRegisterImage ::
  "'w EC2 \<Rightarrow> RegisterImageInput \<Rightarrow> 'w session \<Rightarrow> (string option \<times> error option) \<times> 'w session" where
  "callRegisterImage client req s =
     (case RegisterImage client req (fst s) of
        ((res, err), w') \<Rightarrow> ((res, err), (w', snd s @ [(RegisterImageCall req, err)])))"

definition callDescribeImages ::
  "'w EC2 \<Rightarrow> string \<Rightarrow> 'w session \<Rightarrow> (DescribeImagesOutput option \<times> error option) \<times> 'w session" where
  "callDescribeImages client i s =
     (case DescribeImages client i (fst s) of
        ((res, err), w') \<Rightarrow> ((res, err), (w', snd s @ [(DescribeImagesCall i, err)])))"

definition callDeregisterImage :: "'w EC2 \<Rightarrow> string \<Rightarrow> 'w session \<Rightarrow> error option \<times> 'w session" where
  "callDeregisterImage client i s =
     (case DeregisterImage client i (fst s) of
        (err, w') \<Rightarrow> (err, (w', snd s @ [(DeregisterImageCall i, err)])))"

definition callDeleteSnapshot :: "'w EC2 \<Rightarrow> string \<Rightarrow> 'w session \<Rightarrow> error option \<times> 'w session" where
  "callDeleteSnapshot client i s =
     (case DeleteSnapshot client i (fst s) of
        (err, w') \<Rightarrow> (err, (w', snd s @ [(DeleteSnapshotCall i, err)])))"

definition callModifyImageAttribute ::
  "'w EC2 \<Rightarrow> string \<Rightarrow> string \<Rightarrow> 'w session \<Rightarrow> error option \<times> 'w session" where
  "callModifyImageAttribute client i v s =
     (case ModifyImageAttribute client i v (fst s) of
        (err, w') \<Rightarrow> (err, (w', snd s @ [(ModifyImageAttributeCall i v, err)])))"

definition callCreateTags :: "'w EC2 \<Rightarrow> string \<Rightarrow> tags \<Rightarrow> 'w session \<Rightarrow> error option \<times> 'w session" where
  "callCreateTags client i t s =
     (case CreateTags client i t (fst s) of
        (err, w') \<Rightarrow> (err, (w', snd s @ [(CreateTagsCall i t, err)])))"

definition callDeleteTags ::
  "'w EC2 \<Rightarrow> string \<Rightarrow> string list \<Rightarrow> 'w session \<Rightarrow> error option \<times> 'w session" where
  "callDeleteTags client i ks s =
     (case DeleteTags client i ks (fst s) of
        (err, w') \<Rightarrow> (err, (w', snd s @ [(DeleteTagsCall i ks, err)])))"

text \<open>
  The \<open>meta\<close> argument, \<open>*AWSClient\<close>, with what the functions of this file take from
  outside it: the helper \<open>amiRootSnapshotId\<close>, the tag filter
  \<open>IgnoreAws().IgnoreConfig(ignoreTagsConfig)\<close>, the error \<open>d.Set("tags", ...)\<close> may
  return, the order in which Go ranges over the map of snapshot errors (unspecified by
  the language), and the number of further attempts that fit into the one-minute retry of
  the read.
\<close>

record 'w AWSClient =
  ec2conn :: "'w EC2"
  partition :: string
  region :: string
  IgnoreTags :: "tags \<Rightarrow> tags"
  amiRootSnapshotId :: "Image \<Rightarrow> string"
  SetTagsError :: "tags \<Rightarrow> error option"
  mapRange :: "(string \<times> error) list \<Rightarrow> (string \<times> error) list"
  RetryAttempts :: nat

subsection \<open>Polling\<close>

text \<open>
  Modelled from the spec: the polling loop \<open>resource.StateChangeConf.WaitForState\<close>
  belongs to the plugin SDK, not to this file. After the spec (Remote State Poller): the
  probe is called repeatedly; an error of the probe ends the wait with that error; a
  status in the target set ends it with the probed record; a status in neither set "is
  treated as a non-retryable failure and returned immediately with a descriptive error
  identifying the unexpected status"; on timeout the wait "returns a timeout error that
  embeds the last observed status". The delays between probes are time and are left out;
  \<open>Timeout\<close> counts the probes allowed after the first.
\<close>

record ('r, 's) StateChangeConf =
  Pending :: "string list"
  Target :: "string list"
  Refresh :: "'s \<Rightarrow> ('r \<times> string \<times> error option) \<times> 's"
  Timeout :: nat

datatype 'r probe = Reached 'r | Failed error | StillPending string

definition probeOnce :: "('r, 's) StateChangeConf \<Rightarrow> 's \<Rightarrow> 'r probe \<times> 's" where
  "probeOnce conf s =
     (case Refresh conf s of
        ((r, st, err), s') \<Rightarrow>
          ((case err of
              Some e \<Rightarrow> Failed e
            | None \<Rightarrow>
                if st \<in> set (Target conf) then Reached r
                else if st \<in> set (Pending conf) then StillPending st
                else Failed (UnexpectedStateError st)), s'))"

fun WaitForStateN :: "nat \<Rightarrow> ('r, 's) StateChangeConf \<Rightarrow> 's \<Rightarrow> (error + 'r) \<times> 's" where
  "WaitForStateN 0 conf s =
     (case probeOnce conf s of
        (Reached r, s') \<Rightarrow> (Inr r, s')
      | (Failed e, s') \<Rightarrow> (Inl e, s')
      | (StillPending st, s') \<Rightarrow> (Inl (TimeoutError st), s'))"
| "WaitForStateN (Suc n) conf s =
     (case probeOnce conf s of
        (Reached r, s') \<Rightarrow> (Inr r, s')
      | (Failed e, s') \<Rightarrow> (Inl e, s')
      | (StillPending st, s') \<Rightarrow> WaitForStateN n conf s')"

definition WaitForState :: "('r, 's) StateChangeConf \<Rightarrow> 's \<Rightarrow> (error + 'r) \<times> 's" where
  "WaitForState conf s = WaitForStateN (Timeout conf) conf s"

text \<open>
  Modelled from the spec: \<open>resource.Retry\<close> belongs to the plugin SDK. After the spec
  (Read: "a short bounded retry"): the function is called again while it returns a
  retryable error and the budget lasts; a non-retryable error or success ends the retry;
  when the budget is used up the retry ends with the timeout error that
  \<open>isResourceTimeoutError\<close> recognises.
\<close>

datatype RetryError = RetryableError error | NonRetryableError error

fun Retry :: "nat \<Rightarrow> ('s \<Rightarrow> RetryError option \<times> 's) \<Rightarrow> 's \<Rightarrow> error option \<times> 's" where
  "Retry 0 f s =
     (case f s of
        (None, s') \<Rightarrow> (None, s')
      | (Some (NonRetryableError e), s') \<Rightarrow> (Some e, s')
      | (Some (RetryableError e), s') \<Rightarrow> (Some (TimeoutError ''retryableerror''), s'))"
| "Retry (Suc n) f s =
     (case f s of
        (None, s') \<Rightarrow> (None, s')
      | (Some (NonRetryableError e), s') \<Rightarrow> (Some e, s')
      | (Some (RetryableError e), s') \<Rightarrow> Retry n f s')"

text \<open>
  What the refresh function hands to the polling loop as \<open>interface{}\<close>: the empty
  describe output or the image.
\<close>

datatype refreshed = Resp DescribeImagesOutput | Img Image

definition emptyResp :: refreshed where
  "emptyResp = Resp \<lparr>Images = []\<rparr>"

definition AMIStateRefreshFunc ::
  "'w EC2 \<Rightarrow> string \<Rightarrow> 'w session \<Rightarrow> (refreshed \<times> string \<times> error option) \<times> 'w session" where
  "AMIStateRefreshFunc client i s =
     (case callDescribeImages client i s of
        ((resp, err), s') \<Rightarrow>
          (case err of
             Some e \<Rightarrow>
               if isAWSErr e ''InvalidAMIID.NotFound'' then ((emptyResp, ''destroyed'', None), s')
               else if (case resp of None \<Rightarrow> False | Some r \<Rightarrow> length (Images r) = 0)
                 then ((emptyResp, ''destroyed'', None), s')
               else ((emptyResp, [], Some (ErrorString (''Error on refresh: '' @ Error e))), s')
           | None \<Rightarrow>
               (case resp of
                  None \<Rightarrow> ((emptyResp, ''destroyed'', None), s')
                | Some r \<Rightarrow>
                    (case Images r of
                       [] \<Rightarrow> ((emptyResp, ''destroyed'', None), s')
                     | img # _ \<Rightarrow> ((Img img, ImageState img, None), s')))))"

definition resourceAwsAmiWaitForDestroy ::
  "nat \<Rightarrow> string \<Rightarrow> 'w EC2 \<Rightarrow> 'w session \<Rightarrow> error option \<times> 'w session" where
  "resourceAwsAmiWaitForDestroy timeout i client s =
     (let stateConf = \<lparr>Pending = [ImageStateAvailable, ImageStatePending, ImageStateFailed],
                       Target = [''destroyed''],
                       Refresh = AMIStateRefreshFunc client i,
                       Timeout = timeout\<rparr>
      in case WaitForState stateConf s of
           (Inl err, s') \<Rightarrow>
             (Some (ErrorString (''Error waiting for AMI ('' @ i @ '') to be deleted: '' @ Error err)), s')
         | (Inr info, s') \<Rightarrow> (None, s'))"

definition resourceAwsAmiWaitForAvailable ::
  "nat \<Rightarrow> string \<Rightarrow> 'w EC2 \<Rightarrow> 'w session \<Rightarrow> (error + Image) \<times> 'w session" where
  "resourceAwsAmiWaitForAvailable timeout i client s =
     (let stateConf = \<lparr>Pending = [ImageStatePending],
                       Target = [ImageStateAvailable],
                       Refresh = AMIStateRefreshFunc client i,
                       Timeout = timeout\<rparr>
      in case WaitForState stateConf s of
           (Inl err, s') \<Rightarrow>
             (Inl (ErrorString (''Error waiting for AMI ('' @ i @ '') to be ready: '' @ Error err)), s')
         | (Inr info, s') \<Rightarrow>
             (case info of
                Img img \<Rightarrow> (Inr img, s')
              | Resp r \<Rightarrow> (Inl (Panic ''interface conversion: interface {} is not *ec2.Image''), s')))"

subsection \<open>Read\<close>

definition deref :: "'a option \<Rightarrow> error + 'a" where
  "deref p = (case p of
                None \<Rightarrow> Inl (Panic ''invalid memory address or nil pointer dereference'')
              | Some v \<Rightarrow> Inr v)"

definition bindE :: "error + 'a \<Rightarrow> ('a \<Rightarrow> error + 'b) \<Rightarrow> error + 'b" where
  "bindE m f = (case m of Inl e \<Rightarrow> Inl e | Inr v \<Rightarrow> f v)"

text \<open>
  The loop of the read over \<open>image.BlockDeviceMappings\<close>. A mapping with an \<open>Ebs\<close> part
  becomes an element of \<open>ebs_block_device\<close>, any other one an element of
  \<open>ephemeral_block_device\<close>; \<open>iops\<close> is 0 unless the response carries it, and
  \<open>snapshot_id\<close> is left out of the element (read back as the empty string) unless the
  response carries it.
\<close>

fun readBlockDevs ::
  "BlockDeviceMapping list \<Rightarrow> EbsBlockDev list \<Rightarrow> EphemeralBlockDev list
     \<Rightarrow> error + (EbsBlockDev list \<times> EphemeralBlockDev list)" where
  "readBlockDevs [] ebsBlockDevs ephemeralBlockDevs = Inr (ebsBlockDevs, ephemeralBlockDevs)"
| "readBlockDevs (blockDev # rest) ebsBlockDevs ephemeralBlockDevs =
     (case Ebs blockDev of
        Some ebs \<Rightarrow>
          bindE (deref (DeviceName blockDev)) (\<lambda>dn.
          bindE (deref (DeleteOnTermination ebs)) (\<lambda>dot.
          bindE (deref (Encrypted ebs)) (\<lambda>enc.
          bindE (deref (VolumeSize ebs)) (\<lambda>vs.
          bindE (deref (VolumeType ebs)) (\<lambda>vt.
            readBlockDevs rest
              (ebsBlockDevs @
                 [\<lparr>delete_on_termination = dot,
                   device_name = dn,
                   encrypted = enc,
                   iops = Some (case Iops ebs of None \<Rightarrow> 0 | Some n \<Rightarrow> n),
                   snapshot_id = (case SnapshotId ebs of None \<Rightarrow> [] | Some sn \<Rightarrow> sn),
                   volume_size = Some vs,
                   volume_type = vt\<rparr>])
              ephemeralBlockDevs)))))
      | None \<Rightarrow>
          bindE (deref (DeviceName blockDev)) (\<lambda>dn.
          bindE (deref (VirtualName blockDev)) (\<lambda>vn.
            readBlockDevs rest ebsBlockDevs
              (ephemeralBlockDevs @ [\<lparr>eph_device_name = dn, virtual_name = vn\<rparr>]))))"

text \<open>
  The function passed to \<open>resource.Retry\<close>. It assigns the variable \<open>res\<close> of the
  enclosing function and may clear the identifier, so both are part of its state.
\<close>

definition readRetryFunc ::
  "'w EC2 \<Rightarrow> string
     \<Rightarrow> DescribeImagesOutput option \<times> ResourceData \<times> 'w session
     \<Rightarrow> RetryError option \<times> (DescribeImagesOutput option \<times> ResourceData \<times> 'w session)" where
  "readRetryFunc client i st =
     (case st of
        (res0, d, s) \<Rightarrow>
          (case callDescribeImages client i s of
             ((res, err), s') \<Rightarrow>
               (case err of
                  Some e \<Rightarrow>
                    if isAWSErr e ''InvalidAMIID.NotFound'' then
                      (if IsNewResource d then (Some (RetryableError e), (res, d, s'))
                       else (None, (res, d\<lparr>ResId := []\<rparr>, s')))
                    else (Some (NonRetryableError e), (res, d, s'))
                | None \<Rightarrow> (None, (res, d, s')))))"

text \<open>\<open>arn.ARN{Partition, Region, Resource, Service}.String()\<close> with no account id.\<close>

definition imageArn :: "'w AWSClient \<Rightarrow> string \<Rightarrow> string" where
  "imageArn meta i =
     ''arn:'' @ partition meta @ '':ec2:'' @ region meta @ '':'' @ '':'' @ ''image/'' @ i"

text \<open>The part of the read after the state checks: the calls of \<open>d.Set\<close>.\<close>

definition readSetAttributes ::
  "'w AWSClient \<Rightarrow> Image \<Rightarrow> ResourceData \<Rightarrow> error option \<times> ResourceData" where
  "readSetAttributes meta img d =
     (let d1 = d\<lparr>name := ImageName img,
                 description := ImageDescription img,
                 image_location := ImageImageLocation img,
                 architecture := ImageArchitecture img,
                 kernel_id := ImageKernelId img,
                 ramdisk_id := ImageRamdiskId img,
                 root_device_name := ImageRootDeviceName img,
                 root_snapshot_id := amiRootSnapshotId meta img,
                 sriov_net_support := ImageSriovNetSupport img,
                 virtualization_type := ImageVirtualizationType img,
                 ena_support := ImageEnaSupport img,
                 arn := imageArn meta (ResId d)\<rparr>
      in case readBlockDevs (ImageBlockDeviceMappings img) [] [] of
           Inl e \<Rightarrow> (Some e, d1)
         | Inr (ebsBlockDevs, ephemeralBlockDevs) \<Rightarrow>
             (let d2 = d1\<lparr>ebs_block_device := ebsBlockDevs,
                          ephemeral_block_device := ephemeralBlockDevs\<rparr>;
                  t = IgnoreTags meta (ImageTags img)
              in case SetTagsError meta t of
                   Some err \<Rightarrow> (Some (ErrorString (''error setting tags: '' @ Error err)), d2)
                 | None \<Rightarrow> (None, d2\<lparr>tags := t\<rparr>)))"

definition resourceAwsAmiRead ::
  "'w AWSClient \<Rightarrow> ResourceData \<Rightarrow> 'w session \<Rightarrow> error option \<times> ResourceData \<times> 'w session" where
  "resourceAwsAmiRead meta d0 s0 =
     (let client = ec2conn meta;
          i = ResId d0
      in case Retry (RetryAttempts meta) (readRetryFunc client i) (None, d0, s0) of
           (err1, (res1, d, s1)) \<Rightarrow>
             (case (if isResourceTimeoutError err1 then callDescribeImages client i s1
                    else ((res1, err1), s1)) of
                ((res, err), s) \<Rightarrow>
                  (case err of
                     Some e \<Rightarrow>
                       (Some (ErrorString (''Unable to find AMI after retries: '' @ Error e)), d, s)
                   | None \<Rightarrow>
                       (case res of
                          None \<Rightarrow>
                            (Some (Panic ''invalid memory address or nil pointer dereference''), d, s)
                        | Some r \<Rightarrow>
                            if length (Images r) \<noteq> 1 then (None, d\<lparr>ResId := []\<rparr>, s)
                            else
                              (let img0 = hd (Images r) in
                               case (if ImageState img0 = ImageStatePending
                                     then resourceAwsAmiWaitForAvailable (TimeoutCreate d) i client s
                                     else (Inr img0, s)) of
                                 (Inl e, s2) \<Rightarrow> (Some e, d, s2)
                               | (Inr img, s2) \<Rightarrow>
                                   if ImageState img = ImageStateDeregistered
                                   then (None, d\<lparr>ResId := []\<rparr>, s2)
                                   else if ImageState img \<noteq> ImageStateAvailable
                                   then (Some (ErrorString (''AMI has become '' @ ImageState img)), d, s2)
                                   else (case readSetAttributes meta img d of
                                           (e, d') \<Rightarrow> (e, d', s2)))))))"

subsection \<open>Create\<close>

text \<open>
  The first loop of the create, over \<open>ebsBlockDevsSet.List()\<close>: it appends one mapping
  per element to \<open>req.BlockDeviceMappings\<close> and returns from the whole function with an
  error when an element has both a snapshot id and \<open>encrypted\<close>.
\<close>

text \<open>The error \<open>errors.New("can't set both 'snapshot_id' and 'encrypted'")\<close>.\<close>

definition errSnapshotIdAndEncrypted :: error where
  "errSnapshotIdAndEncrypted =
     ErrorString (''can't set both 'snapshot_id' and 'encrypted'' @ [CHR 0x27])"

definition ebsBlockDevMapping :: "EbsBlockDev \<Rightarrow> BlockDeviceMapping" where
  "ebsBlockDevMapping ebsBlockDev =
     (let ebs0 = \<lparr>DeleteOnTermination = Some (delete_on_termination ebsBlockDev),
                  Encrypted = None,
                  Iops = None,
                  SnapshotId = None,
                  VolumeSize = None,
                  VolumeType = Some (volume_type ebsBlockDev)\<rparr>;
          ebs1 = (case iops ebsBlockDev of
                    Some iop \<Rightarrow> if iop \<noteq> 0 then ebs0\<lparr>Iops := Some iop\<rparr> else ebs0
                  | None \<Rightarrow> ebs0);
          ebs2 = (case volume_size ebsBlockDev of
                    Some sz \<Rightarrow> if sz \<noteq> 0 then ebs1\<lparr>VolumeSize := Some sz\<rparr> else ebs1
                  | None \<Rightarrow> ebs1)
      in \<lparr>DeviceName = Some (device_name ebsBlockDev), VirtualName = None, Ebs = Some ebs2\<rparr>)"

definition setSnapshotId :: "string \<Rightarrow> BlockDeviceMapping \<Rightarrow> BlockDeviceMapping" where
  "setSnapshotId snapshotId blockDev =
     blockDev\<lparr>Ebs := map_option (\<lambda>e. e\<lparr>SnapshotId := Some snapshotId\<rparr>) (Ebs blockDev)\<rparr>"

definition setEncrypted :: "BlockDeviceMapping \<Rightarrow> BlockDeviceMapping" where
  "setEncrypted blockDev =
     blockDev\<lparr>Ebs := map_option (\<lambda>e. e\<lparr>Encrypted := Some True\<rparr>) (Ebs blockDev)\<rparr>"

fun createEbsBlockDevs ::
  "EbsBlockDev list \<Rightarrow> BlockDeviceMapping list \<Rightarrow> error + BlockDeviceMapping list" where
  "createEbsBlockDevs [] mappings = Inr mappings"
| "createEbsBlockDevs (ebsBlockDev # rest) mappings =
     (let blockDev = ebsBlockDevMapping ebsBlockDev in
      if snapshot_id ebsBlockDev \<noteq> [] then
        (if encrypted ebsBlockDev
         then Inl errSnapshotIdAndEncrypted
         else createEbsBlockDevs rest
                (mappings @ [setSnapshotId (snapshot_id ebsBlockDev) blockDev]))
      else if encrypted ebsBlockDev
        then createEbsBlockDevs rest (mappings @ [setEncrypted blockDev])
        else createEbsBlockDevs rest (mappings @ [blockDev]))"

text \<open>The second loop, over \<open>ephemeralBlockDevsSet.List()\<close>.\<close>

definition createEphemeralBlockDevs :: "EphemeralBlockDev list \<Rightarrow> BlockDeviceMapping list" where
  "createEphemeralBlockDevs devs =
     map (\<lambda>ephemeralBlockDev.
            \<lparr>DeviceName = Some (eph_device_name ephemeralBlockDev),
             VirtualName = Some (virtual_name ephemeralBlockDev),
             Ebs = None\<rparr>) devs"

text \<open>The request as it stands before the two loops.\<close>

definition createRequest :: "ResourceData \<Rightarrow> RegisterImageInput" where
  "createRequest d =
     \<lparr>Name = name d,
      Description = description d,
      Architecture = architecture d,
      ImageLocation = image_location d,
      RootDeviceName = root_device_name d,
      SriovNetSupport = sriov_net_support d,
      VirtualizationType = virtualization_type d,
      EnaSupport = ena_support d,
      KernelId = (if kernel_id d \<noteq> [] then Some (kernel_id d) else None),
      RamdiskId = (if ramdisk_id d \<noteq> [] then Some (ramdisk_id d) else None),
      BlockDeviceMappings = []\<rparr>"

text \<open>
  Modelled from the spec: \<open>keyvaluetags.Ec2CreateTags\<close> is declared outside this file;
  after the spec's remote operation \<open>apply_tags(id, map) -> ok\<close> it is one call that
  applies the whole map.
\<close>

definition Ec2CreateTags :: "'w EC2 \<Rightarrow> string \<Rightarrow> tags \<Rightarrow> 'w session \<Rightarrow> error option \<times> 'w session" where
  "Ec2CreateTags client i v s = callCreateTags client i v s"

definition resourceAwsAmiCreate ::
  "'w AWSClient \<Rightarrow> ResourceData \<Rightarrow> 'w session \<Rightarrow> error option \<times> ResourceData \<times> 'w session" where
  "resourceAwsAmiCreate meta d s =
     (let client = ec2conn meta;
          req0 = createRequest d
      in case createEbsBlockDevs (ebs_block_device d) (BlockDeviceMappings req0) of
           Inl e \<Rightarrow> (Some e, d, s)
         | Inr mappings \<Rightarrow>
             (let req = req0\<lparr>BlockDeviceMappings :=
                               mappings @ createEphemeralBlockDevs (ephemeral_block_device d)\<rparr>
              in case callRegisterImage client req s of
                   ((res, Some err), s1) \<Rightarrow> (Some err, d, s1)
                 | ((None, None), s1) \<Rightarrow>
                     (Some (Panic ''invalid memory address or nil pointer dereference''), d, s1)
                 | ((Some i, None), s1) \<Rightarrow>
                     (let d1 = d\<lparr>ResId := i\<rparr> in
                      case (if length (tags d1) > 0 then Ec2CreateTags client i (tags d1) s1
                            else (None, s1)) of
                        (Some err, s2) \<Rightarrow>
                          (Some (ErrorString (''error adding tags: '' @ Error err)), d1, s2)
                      | (None, s2) \<Rightarrow>
                          (case resourceAwsAmiWaitForAvailable (TimeoutCreate d1) i client s2 of
                             (Inl err, s3) \<Rightarrow> (Some err, d1, s3)
                           | (Inr img, s3) \<Rightarrow> resourceAwsAmiRead meta d1 s3))))"

subsection \<open>Update\<close>

text \<open>
  Modelled from the spec: \<open>keyvaluetags.Ec2UpdateTags\<close> is declared outside this file.
  After the spec (Tag Synchronizer, TagDiff): it "computes the diff between previous and
  desired tag sets and issues the minimal add/remove calls", the diff being "the set of
  tags to add/overwrite and the set of tag keys to remove"; with old tags \<open>{env: dev}\<close> and
  new tags \<open>{env: prod, team: x}\<close> it "issues one apply-call with \<open>{env: prod, team: x}\<close>
  and zero remove-calls".
\<close>

definition removedTags :: "tags \<Rightarrow> tags \<Rightarrow> string list" where
  "removedTags oldTags newTags = [k \<leftarrow> map fst oldTags. k \<notin> set (map fst newTags)]"

definition updatedTags :: "tags \<Rightarrow> tags \<Rightarrow> tags" where
  "updatedTags oldTags newTags = [kv \<leftarrow> newTags. kv \<notin> set oldTags]"

definition Ec2UpdateTags ::
  "'w EC2 \<Rightarrow> string \<Rightarrow> tags \<Rightarrow> tags \<Rightarrow> 'w session \<Rightarrow> error option \<times> 'w session" where
  "Ec2UpdateTags client i oldTags newTags s =
     (case (if removedTags oldTags newTags \<noteq> []
            then callDeleteTags client i (removedTags oldTags newTags) s
            else (None, s)) of
        (Some err, s1) \<Rightarrow> (Some err, s1)
      | (None, s1) \<Rightarrow>
          if updatedTags oldTags newTags \<noteq> []
          then callCreateTags client i (updatedTags oldTags newTags) s1
          else (None, s1))"

text \<open>
  \<open>d.HasChange("tags")\<close>: the prior and the new tag maps differ. A map is held as a list
  of pairs with distinct keys, so two lists are the same map when they have the same
  elements.
\<close>

definition HasChangeTags :: "ResourceData \<Rightarrow> bool" where
  "HasChangeTags d = (set (tags_old d) \<noteq> set (tags d))"

definition resourceAwsAmiUpdate ::
  "'w AWSClient \<Rightarrow> ResourceData \<Rightarrow> 'w session \<Rightarrow> error option \<times> ResourceData \<times> 'w session" where
  "resourceAwsAmiUpdate meta d s =
     (let client = ec2conn meta in
      case (if HasChangeTags d then Ec2UpdateTags client (ResId d) (tags_old d) (tags d) s
            else (None, s)) of
        (Some err, s1) \<Rightarrow>
          (Some (ErrorString (''error updating AMI ('' @ ResId d @ '') tags: '' @ Error err)), d, s1)
      | (None, s1) \<Rightarrow>
          (case (if description d \<noteq> []
                 then callModifyImageAttribute client (ResId d) (description d) s1
                 else (None, s1)) of
             (Some err, s2) \<Rightarrow> (Some err, d, s2)
           | (None, s2) \<Rightarrow> resourceAwsAmiRead meta d s2))"

subsection \<open>Delete\<close>

text \<open>
  The loop of the delete over \<open>ebsBlockDevsSet.List()\<close>: one \<open>DeleteSnapshot\<close> call per
  element with a snapshot id, an error being stored in the map \<open>errs\<close> under that id.
\<close>

fun deleteSnapshots ::
  "'w EC2 \<Rightarrow> EbsBlockDev list \<Rightarrow> (string \<times> error) list \<Rightarrow> 'w session
     \<Rightarrow> (string \<times> error) list \<times> 'w session" where
  "deleteSnapshots client [] errs s = (errs, s)"
| "deleteSnapshots client (ebsBlockDev # rest) errs s =
     (let snapshotId = snapshot_id ebsBlockDev in
      if snapshotId \<noteq> [] then
        (case callDeleteSnapshot client snapshotId s of
           (Some err, s') \<Rightarrow> deleteSnapshots client rest (AList.update snapshotId err errs) s'
         | (None, s') \<Rightarrow> deleteSnapshots client rest errs s')
      else deleteSnapshots client rest errs s)"

text \<open>\<open>strings.Join\<close>.\<close>

fun Join :: "string list \<Rightarrow> string \<Rightarrow> string" where
  "Join [] sep = []"
| "Join [x] sep = x"
| "Join (x # y # ys) sep = x @ sep @ Join (y # ys) sep"

definition snapshotErrParts :: "(string \<times> error) list \<Rightarrow> string list" where
  "snapshotErrParts ranged =
     [''Errors while deleting associated EBS snapshots:''] @
     map (\<lambda>(snapshotId, err). snapshotId @ '': '' @ Error err) ranged @
     [''These are no longer managed by Terraform and must be deleted manually.'']"

definition resourceAwsAmiDelete ::
  "'w AWSClient \<Rightarrow> ResourceData \<Rightarrow> 'w session \<Rightarrow> error option \<times> ResourceData \<times> 'w session" where
  "resourceAwsAmiDelete meta d s =
     (let client = ec2conn meta in
      case callDeregisterImage client (ResId d) s of
        (Some err, s1) \<Rightarrow> (Some err, d, s1)
      | (None, s1) \<Rightarrow>
          (case (if manage_ebs_snapshots d
                 then deleteSnapshots client (ebs_block_device d) [] s1
                 else ([], s1)) of
             (errs, s2) \<Rightarrow>
               if length errs > 0
               then (Some (ErrorString (Join (snapshotErrParts (mapRange meta errs)) [CHR 0x0A])), d, s2)
               else (case resourceAwsAmiWaitForDestroy (TimeoutDelete d) (ResId d) client s2 of
                       (Some err, s3) \<Rightarrow> (Some err, d, s3)
                     | (None, s3) \<Rightarrow> (None, d, s3))))"

subsection \<open>The identity of set elements\<close>

text \<open>
  The \<open>Set\<close> functions of the two nested collections. \<open>hashcode.String\<close> is declared
  outside this file and is the parameter \<open>hashcodeString\<close>.
\<close>

definition ebsBlockDeviceSet :: "(string \<Rightarrow> 'h) \<Rightarrow> EbsBlockDev \<Rightarrow> 'h" where
  "ebsBlockDeviceSet hashcodeString m =
     hashcodeString ((device_name m @ ''-'') @ (snapshot_id m @ ''-''))"

definition ephemeralBlockDeviceSet :: "(string \<Rightarrow> 'h) \<Rightarrow> EphemeralBlockDev \<Rightarrow> 'h" where
  "ephemeralBlockDeviceSet hashcodeString m =
     hashcodeString ((eph_device_name m @ ''-'') @ (virtual_name m @ ''-''))"

subsection \<open>Example inputs\<close>

text \<open>
  A client over a world that counts the describe calls made so far: the answer of the
  n-th describe call is given by a script, the answer of a snapshot deletion by a
  function of the snapshot id, and every other call succeeds.
\<close>

definition scriptedEC2 ::
  "(nat \<Rightarrow> DescribeImagesOutput option \<times> error option) \<Rightarrow> (string \<Rightarrow> error option) \<Rightarrow> nat EC2" where
  "scriptedEC2 describe snapErr =
     \<lparr>RegisterImage = (\<lambda>req w. ((Some ''ami-1'', None), w)),
      DescribeImages = (\<lambda>i w. (describe w, Suc w)),
      DeregisterImage = (\<lambda>i w. (None, w)),
      DeleteSnapshot = (\<lambda>i w. (snapErr i, w)),
      ModifyImageAttribute = (\<lambda>i v w. (None, w)),
      CreateTags = (\<lambda>i t w. (None, w)),
      DeleteTags = (\<lambda>i ks w. (None, w))\<rparr>"

definition exampleMeta ::
  "(nat \<Rightarrow> DescribeImagesOutput option \<times> error option) \<Rightarrow> (string \<Rightarrow> error option) \<Rightarrow> nat AWSClient" where
  "exampleMeta describe snapErr =
     \<lparr>ec2conn = scriptedEC2 describe snapErr,
      partition = ''aws'',
      region = ''us-east-1'',
      IgnoreTags = (\<lambda>t. t),
      amiRootSnapshotId = (\<lambda>img. []),
      SetTagsError = (\<lambda>t. None),
      mapRange = (\<lambda>errs. errs),
      RetryAttempts = 2\<rparr>"

definition notFound :: error where
  "notFound = AWSErr ''InvalidAMIID.NotFound'' ''The image id does not exist''"

definition exampleEbs :: "string \<Rightarrow> string \<Rightarrow> bool \<Rightarrow> EbsBlockDev" where
  "exampleEbs dev snap enc =
     \<lparr>delete_on_termination = True,
      device_name = dev,
      encrypted = enc,
      iops = Some 0,
      snapshot_id = snap,
      volume_size = Some 8,
      volume_type = ''gp2''\<rparr>"

definition exampleImage :: "string \<Rightarrow> Image" where
  "exampleImage st =
     \<lparr>ImageState = st,
      ImageName = ''img'',
      ImageDescription = [],
      ImageImageLocation = [],
      ImageArchitecture = ''x86_64'',
      ImageKernelId = [],
      ImageRamdiskId = [],
      ImageRootDeviceName = ''/dev/sda1'',
      ImageSriovNetSupport = ''simple'',
      ImageVirtualizationType = ''paravirtual'',
      ImageEnaSupport = False,
      ImageBlockDeviceMappings = [],
      ImageTags = []\<rparr>"

definition exampleData :: "EbsBlockDev list \<Rightarrow> ResourceData" where
  "exampleData ebs =
     \<lparr>ResId = ''ami-1'',
      IsNewResource = False,
      name = ''img'',
      description = [],
      image_location = [],
      architecture = ''x86_64'',
      kernel_id = [],
      ramdisk_id = [],
      root_device_name = ''/dev/sda1'',
      root_snapshot_id = [],
      sriov_net_support = ''simple'',
      virtualization_type = ''paravirtual'',
      ena_support = False,
      arn = [],
      manage_ebs_snapshots = True,
      ebs_block_device = ebs,
      ephemeral_block_device = [],
      tags = [],
      tags_old = [],
      description_old = [],
      TimeoutCreate = 3,
      TimeoutDelete = 3\<rparr>"

text \<open>The example client with a deregistration that the remote side refuses.\<close>

definition exampleMetaDeregisterRefused :: "nat AWSClient" where
  "exampleMetaDeregisterRefused =
     (exampleMeta (\<lambda>n. (None, Some notFound)) (\<lambda>i. None))
       \<lparr>ec2conn := (scriptedEC2 (\<lambda>n. (None, Some notFound)) (\<lambda>i. None))
          \<lparr>DeregisterImage := (\<lambda>i w. (Some (AWSErr ''UnauthorizedOperation'' ''denied''), w))\<rparr>\<rparr>"

text \<open>Describe scripts: the image is available; the image is gone; the image is
  deregistered.\<close>

definition describeAvailable :: "nat \<Rightarrow> DescribeImagesOutput option \<times> error option" where
  "describeAvailable n = (Some \<lparr>Images = [exampleImage ImageStateAvailable]\<rparr>, None)"

definition describeGone :: "nat \<Rightarrow> DescribeImagesOutput option \<times> error option" where
  "describeGone n = (Some \<lparr>Images = []\<rparr>, Some notFound)"

definition describeDeregistered :: "nat \<Rightarrow> DescribeImagesOutput option \<times> error option" where
  "describeDeregistered n = (Some \<lparr>Images = [exampleImage ImageStateDeregistered]\<rparr>, None)"

text \<open>A new resource with one EBS device and one tag, as the create receives it.\<close>

definition exampleNewData :: ResourceData where
  "exampleNewData =
     (exampleData [exampleEbs ''/dev/sda1'' [] False])
       \<lparr>ResId := [], IsNewResource := True, tags := [(''env'', ''dev'')]\<rparr>"

text \<open>The image is gone at the first describe call and available from the second on.\<close>

definition describeGoneThenAvailable :: "nat \<Rightarrow> DescribeImagesOutput option \<times> error option" where
  "describeGoneThenAvailable n = (if n = 0 then describeGone n else describeAvailable n)"

text \<open>Three EBS devices with the snapshots \<open>s1\<close>, \<open>s2\<close>, \<open>s3\<close>, and a remote side that
  refuses to delete \<open>s2\<close>.\<close>

definition exampleThreeSnapshots :: ResourceData where
  "exampleThreeSnapshots =
     exampleData [exampleEbs ''/dev/sda1'' ''s1'' False,
                  exampleEbs ''/dev/sdb'' ''s2'' False,
                  exampleEbs ''/dev/sdc'' ''s3'' False]"

definition snapshotInUse :: error where
  "snapshotInUse = AWSErr ''InvalidSnapshot.InUse'' ''The snapshot is in use''"

definition refuseS2 :: "string \<Rightarrow> error option" where
  "refuseS2 i = (if i = ''s2'' then Some snapshotInUse else None)"

text \<open>An update that changes the tags from \<open>{env: dev}\<close> to \<open>{env: prod, team: x}\<close> and
  leaves the description \<open>base image\<close> as it was.\<close>

definition exampleRetagged :: ResourceData where
  "exampleRetagged =
     (exampleData [])
       \<lparr>description := ''base image'',
        description_old := ''base image'',
        tags_old := [(''env'', ''dev'')],
        tags := [(''env'', ''prod''), (''team'', ''x'')]\<rparr>"

text \<open>Every snapshot deletion succeeds.\<close>

definition deleteSucceeds :: "string \<Rightarrow> error option" where
  "deleteSucceeds i = None"

text \<open>A stand-in for \<open>hashcode.String\<close> without collisions: the text is its own code.\<close>

definition textAsCode :: "string \<Rightarrow> string" where
  "textAsCode s = s"

section \<open>Properties\<close>

subsection \<open>Create: the configuration error comes before any call\<close>

lemma createEbsBlockDevs_conflict:
  "\<exists>e \<in> set devs. snapshot_id e \<noteq> [] \<and> encrypted e \<Longrightarrow>
     createEbsBlockDevs devs mappings = Inl errSnapshotIdAndEncrypted"
  by (induction devs arbitrary: mappings) (auto simp: Let_def)

text \<open>
  C1. When some element of \<open>ebs_block_device\<close> has a non-empty \<open>snapshot_id\<close> and
  \<open>encrypted = true\<close>, the create returns the error "can't set both 'snapshot_id' and
  'encrypted'"; the resource data, the remote world and the call log are what they were,
  so no \<open>RegisterImage\<close>, no tag call and no describe call has been issued.
\<close>

theorem create_snapshot_encrypted_conflict:
  assumes "\<exists>e \<in> set (ebs_block_device d). snapshot_id e \<noteq> [] \<and> encrypted e"
  shows "resourceAwsAmiCreate meta d s = (Some errSnapshotIdAndEncrypted, d, s)"
  using createEbsBlockDevs_conflict[OF assms]
  by (simp add: resourceAwsAmiCreate_def Let_def createRequest_def)

theorem create_snapshot_encrypted_conflict_witness:
  "(\<exists>e \<in> set (ebs_block_device (exampleData [exampleEbs ''/dev/sda1'' [] False,
                                               exampleEbs ''/dev/sdb'' ''snap-1'' True])).
      snapshot_id e \<noteq> [] \<and> encrypted e) \<and>
   resourceAwsAmiCreate (exampleMeta describeGone deleteSucceeds)
       (exampleData [exampleEbs ''/dev/sda1'' [] False, exampleEbs ''/dev/sdb'' ''snap-1'' True])
       (0, []) =
     (Some errSnapshotIdAndEncrypted,
      exampleData [exampleEbs ''/dev/sda1'' [] False, exampleEbs ''/dev/sdb'' ''snap-1'' True],
      (0, []))"
proof -
  have h: "\<exists>e \<in> set (ebs_block_device (exampleData [exampleEbs ''/dev/sda1'' [] False,
                                               exampleEbs ''/dev/sdb'' ''snap-1'' True])).
      snapshot_id e \<noteq> [] \<and> encrypted e"
    by (simp add: exampleData_def exampleEbs_def)
  show ?thesis
    using h create_snapshot_encrypted_conflict[OF h] by simp
qed

subsection \<open>Delete: a failed deregistration\<close>

text \<open>
  C10. When the deregistration call returns an error, the delete returns that error; the
  log has grown by the deregistration call alone (no \<open>DeleteSnapshot\<close> call, whatever
  \<open>manage_ebs_snapshots\<close> says, and no describe call of the destroyed-wait), and the
  resource data is unchanged.
\<close>

theorem delete_deregister_error:
  assumes "DeregisterImage (ec2conn meta) (ResId d) w = (Some err, w')"
  shows "resourceAwsAmiDelete meta d (w, l) =
           (Some err, d, (w', l @ [(DeregisterImageCall (ResId d), Some err)]))"
  using assms by (simp add: resourceAwsAmiDelete_def callDeregisterImage_def)

theorem delete_deregister_error_witness:
  "DeregisterImage (ec2conn exampleMetaDeregisterRefused)
       (ResId (exampleData [exampleEbs ''/dev/sda1'' ''snap-1'' False])) 0 =
     (Some (AWSErr ''UnauthorizedOperation'' ''denied''), 0) \<and>
   manage_ebs_snapshots (exampleData [exampleEbs ''/dev/sda1'' ''snap-1'' False]) \<and>
   resourceAwsAmiDelete exampleMetaDeregisterRefused
       (exampleData [exampleEbs ''/dev/sda1'' ''snap-1'' False]) (0, []) =
     (Some (AWSErr ''UnauthorizedOperation'' ''denied''),
      exampleData [exampleEbs ''/dev/sda1'' ''snap-1'' False],
      (0, [(DeregisterImageCall ''ami-1'', Some (AWSErr ''UnauthorizedOperation'' ''denied''))]))"
proof -
  have h: "DeregisterImage (ec2conn exampleMetaDeregisterRefused)
       (ResId (exampleData [exampleEbs ''/dev/sda1'' ''snap-1'' False])) 0 =
     (Some (AWSErr ''UnauthorizedOperation'' ''denied''), 0)"
    by (simp add: exampleMetaDeregisterRefused_def exampleMeta_def scriptedEC2_def)
  have m: "manage_ebs_snapshots (exampleData [exampleEbs ''/dev/sda1'' ''snap-1'' False])"
    and i: "ResId (exampleData [exampleEbs ''/dev/sda1'' ''snap-1'' False]) = ''ami-1''"
    by (simp_all add: exampleData_def)
  show ?thesis
    using h m delete_deregister_error[OF h, of "[]"] by (simp add: i)
qed

subsection \<open>The call log only grows\<close>

text \<open>
  Every describe call appends one entry to the log, so the two waits and the read append
  describe calls for their identifier and nothing else.
\<close>

lemma callDescribeImages_log:
  "callDescribeImages client i s = (r, s') \<Longrightarrow> \<exists>e. snd s' = snd s @ [(DescribeImagesCall i, e)]"
  by (auto simp: callDescribeImages_def split: prod.splits)

lemma AMIStateRefreshFunc_log:
  "AMIStateRefreshFunc client i s = (r, s') \<Longrightarrow> \<exists>e. snd s' = snd s @ [(DescribeImagesCall i, e)]"
  by (auto simp: AMIStateRefreshFunc_def callDescribeImages_def
           split: prod.splits option.splits if_splits list.splits)

lemma probeOnce_Refresh:
  "probeOnce conf s = (p, s1) \<Longrightarrow> \<exists>r. Refresh conf s = (r, s1)"
  by (auto simp: probeOnce_def split: prod.splits)

lemma WaitForStateN_log:
  assumes step: "\<And>s r s'. Refresh conf s = (r, s') \<Longrightarrow> \<exists>e. snd s' = snd s @ [(c, e)]"
      and run: "WaitForStateN n conf s = (res, s')"
  shows "\<exists>new. snd s' = snd s @ new \<and> new \<noteq> [] \<and> set (map fst new) \<subseteq> {c}"
  using run
proof (induction n arbitrary: s)
  case 0
  obtain p s1 where p: "probeOnce conf s = (p, s1)" by (cases "probeOnce conf s")
  from step probeOnce_Refresh[OF p] obtain e where "snd s1 = snd s @ [(c, e)]" by blast
  with 0 p show ?case by (cases p) auto
next
  case (Suc n)
  obtain p s1 where p: "probeOnce conf s = (p, s1)" by (cases "probeOnce conf s")
  from step probeOnce_Refresh[OF p] obtain e where e: "snd s1 = snd s @ [(c, e)]" by blast
  show ?case
  proof (cases p)
    case (StillPending st)
    with Suc.prems p have "WaitForStateN n conf s1 = (res, s')" by simp
    from Suc.IH[OF this] e show ?thesis by auto
  qed (use Suc.prems p e in auto)
qed

lemma WaitForAvailable_log:
  assumes "resourceAwsAmiWaitForAvailable n i client s = (r, s')"
  shows "\<exists>new. snd s' = snd s @ new \<and> new \<noteq> [] \<and> set (map fst new) \<subseteq> {DescribeImagesCall i}"
proof -
  let ?conf = "\<lparr>Pending = [ImageStatePending], Target = [ImageStateAvailable],
                Refresh = AMIStateRefreshFunc client i, Timeout = n\<rparr>"
  obtain res where "WaitForStateN n ?conf s = (res, s')"
    using assms
    by (auto simp: resourceAwsAmiWaitForAvailable_def WaitForState_def Let_def
             split: prod.splits sum.splits refreshed.splits)
  then show ?thesis
    by (rule WaitForStateN_log[rotated]) (simp add: AMIStateRefreshFunc_log)
qed

lemma WaitForDestroy_log:
  assumes "resourceAwsAmiWaitForDestroy n i client s = (r, s')"
  shows "\<exists>new. snd s' = snd s @ new \<and> new \<noteq> [] \<and> set (map fst new) \<subseteq> {DescribeImagesCall i}"
proof -
  let ?conf = "\<lparr>Pending = [ImageStateAvailable, ImageStatePending, ImageStateFailed],
                Target = [''destroyed''],
                Refresh = AMIStateRefreshFunc client i, Timeout = n\<rparr>"
  obtain res where "WaitForStateN n ?conf s = (res, s')"
    using assms
    by (auto simp: resourceAwsAmiWaitForDestroy_def WaitForState_def Let_def
             split: prod.splits sum.splits)
  then show ?thesis
    by (rule WaitForStateN_log[rotated]) (simp add: AMIStateRefreshFunc_log)
qed

lemma readRetryFunc_log:
  "readRetryFunc client i (res0, d, s) = (r, (res, d', s')) \<Longrightarrow>
     \<exists>e. snd s' = snd s @ [(DescribeImagesCall i, e)]"
  by (auto simp: readRetryFunc_def callDescribeImages_def
           split: prod.splits option.splits if_splits)

lemma Retry_readRetryFunc_log:
  "Retry n (readRetryFunc client i) (res0, d, s) = (r, (res, d', s')) \<Longrightarrow>
     \<exists>new. snd s' = snd s @ new \<and> new \<noteq> [] \<and> set (map fst new) \<subseteq> {DescribeImagesCall i}"
proof (induction n arbitrary: res0 d s)
  case 0
  obtain r1 res1 d1 s1 where f: "readRetryFunc client i (res0, d, s) = (r1, (res1, d1, s1))"
    by (metis prod_cases3)
  from readRetryFunc_log[OF f] obtain e where "snd s1 = snd s @ [(DescribeImagesCall i, e)]" ..
  with 0 f show ?case
    by (auto split: option.splits RetryError.splits)
next
  case (Suc n)
  obtain r1 res1 d1 s1 where f: "readRetryFunc client i (res0, d, s) = (r1, (res1, d1, s1))"
    by (metis prod_cases3)
  from readRetryFunc_log[OF f] obtain e where e: "snd s1 = snd s @ [(DescribeImagesCall i, e)]" ..
  show ?case
  proof (cases r1)
    case None
    with Suc.prems f e show ?thesis by auto
  next
    case (Some re)
    show ?thesis
    proof (cases re)
      case (RetryableError x)
      with Some Suc.prems f have "Retry n (readRetryFunc client i) (res1, d1, s1) = (r, (res, d', s'))"
        by simp
      from Suc.IH[OF this] e show ?thesis by auto
    next
      case (NonRetryableError x)
      with Some Suc.prems f e show ?thesis by auto
    qed
  qed
qed

lemma Read_log:
  assumes "resourceAwsAmiRead meta d s = (r, d', s')"
  shows "\<exists>new. snd s' = snd s @ new \<and> new \<noteq> [] \<and>
               set (map fst new) \<subseteq> {DescribeImagesCall (ResId d)}"
proof -
  let ?c = "ec2conn meta" and ?i = "ResId d"
  obtain err1 res1 d1 s1 where
    rt: "Retry (RetryAttempts meta) (readRetryFunc ?c ?i) (None, d, s) = (err1, (res1, d1, s1))"
    by (metis prod_cases3)
  from Retry_readRetryFunc_log[OF rt] obtain n1 where
    n1: "snd s1 = snd s @ n1" "n1 \<noteq> []" "set (map fst n1) \<subseteq> {DescribeImagesCall ?i}" by blast
  obtain res err s2 where
    st: "(if isResourceTimeoutError err1 then callDescribeImages ?c ?i s1 else ((res1, err1), s1))
           = ((res, err), s2)"
    by (cases "(if isResourceTimeoutError err1 then callDescribeImages ?c ?i s1 else ((res1, err1), s1))") auto
  have "\<exists>n2. snd s2 = snd s1 @ n2 \<and> set (map fst n2) \<subseteq> {DescribeImagesCall ?i}"
    using st by (auto split: if_splits dest: callDescribeImages_log)
  then obtain n2 where
    n2: "snd s2 = snd s1 @ n2" "set (map fst n2) \<subseteq> {DescribeImagesCall ?i}" by blast
  have "\<exists>n3. snd s' = snd s2 @ n3 \<and> set (map fst n3) \<subseteq> {DescribeImagesCall ?i}"
    using assms rt st
    by (auto simp: resourceAwsAmiRead_def Let_def
             split: option.splits if_splits prod.splits sum.splits
             dest!: WaitForAvailable_log)
  then obtain n3 where "snd s' = snd s2 @ n3" "set (map fst n3) \<subseteq> {DescribeImagesCall ?i}" by blast
  with n1 n2 show ?thesis
    by (intro exI[of _ "n1 @ n2 @ n3"]) auto
qed

subsection \<open>Create: the outbound request\<close>

lemma createEbsBlockDevs_ok:
  "\<not> (\<exists>e \<in> set devs. snapshot_id e \<noteq> [] \<and> encrypted e) \<Longrightarrow>
     createEbsBlockDevs devs mappings =
       Inr (mappings @
            map (\<lambda>e. if snapshot_id e \<noteq> [] then setSnapshotId (snapshot_id e) (ebsBlockDevMapping e)
                      else if encrypted e then setEncrypted (ebsBlockDevMapping e)
                      else ebsBlockDevMapping e) devs)"
  by (induction devs arbitrary: mappings) (auto simp: Let_def)

lemma ebsBlockDevMapping_fields:
  "\<exists>ebs. Ebs (ebsBlockDevMapping e) = Some ebs \<and>
         DeviceName (ebsBlockDevMapping e) = Some (device_name e) \<and>
         Iops ebs = (case iops e of Some n \<Rightarrow> if n \<noteq> 0 then Some n else None | None \<Rightarrow> None) \<and>
         VolumeSize ebs =
           (case volume_size e of Some n \<Rightarrow> if n \<noteq> 0 then Some n else None | None \<Rightarrow> None)"
  by (simp add: ebsBlockDevMapping_def Let_def split: option.splits)

lemma final_mapping_fields:
  "\<exists>ebs. Ebs (if snapshot_id e \<noteq> [] then setSnapshotId (snapshot_id e) (ebsBlockDevMapping e)
                else if encrypted e then setEncrypted (ebsBlockDevMapping e)
                else ebsBlockDevMapping e) = Some ebs \<and>
         DeviceName (if snapshot_id e \<noteq> [] then setSnapshotId (snapshot_id e) (ebsBlockDevMapping e)
                else if encrypted e then setEncrypted (ebsBlockDevMapping e)
                else ebsBlockDevMapping e) = Some (device_name e) \<and>
         Iops ebs = (case iops e of Some n \<Rightarrow> if n \<noteq> 0 then Some n else None | None \<Rightarrow> None) \<and>
         VolumeSize ebs =
           (case volume_size e of Some n \<Rightarrow> if n \<noteq> 0 then Some n else None | None \<Rightarrow> None)"
  using ebsBlockDevMapping_fields[of e]
  by (auto simp: setSnapshotId_def setEncrypted_def)

lemma Create_log_head:
  assumes "createEbsBlockDevs (ebs_block_device d) [] = Inr ms"
  shows "\<exists>err rest. snd (snd (snd (resourceAwsAmiCreate meta d (w, l)))) =
           l @ (RegisterImageCall ((createRequest d)\<lparr>BlockDeviceMappings :=
                  ms @ createEphemeralBlockDevs (ephemeral_block_device d)\<rparr>), err) # rest"
proof -
  let ?req = "(createRequest d)\<lparr>BlockDeviceMappings :=
                  ms @ createEphemeralBlockDevs (ephemeral_block_device d)\<rparr>"
  let ?c = "ec2conn meta"
  obtain res err w1 where reg: "RegisterImage ?c ?req w = ((res, err), w1)"
    by (cases "RegisterImage ?c ?req w") auto
  let ?s1 = "(w1, l @ [(RegisterImageCall ?req, err)])"
  have call: "callRegisterImage ?c ?req (w, l) = ((res, err), ?s1)"
    by (simp add: callRegisterImage_def reg)
  have bd: "BlockDeviceMappings (createRequest d) = []" by (simp add: createRequest_def)
  show ?thesis
  proof (cases err)
    case (Some e)
    then show ?thesis using assms call bd
      by (simp add: resourceAwsAmiCreate_def Let_def split: option.splits)
  next
    case None
    show ?thesis
    proof (cases res)
      case N: None
      then show ?thesis using assms call bd None
        by (simp add: resourceAwsAmiCreate_def Let_def split: option.splits)
    next
      case (Some i)
      obtain terr s2 where tg: "(if length (tags (d\<lparr>ResId := i\<rparr>)) > 0
             then Ec2CreateTags ?c i (tags (d\<lparr>ResId := i\<rparr>)) ?s1 else (None, ?s1)) = (terr, s2)"
        by (cases "(if length (tags (d\<lparr>ResId := i\<rparr>)) > 0
             then Ec2CreateTags ?c i (tags (d\<lparr>ResId := i\<rparr>)) ?s1 else (None, ?s1))") auto
      have s2: "\<exists>n2. snd s2 = snd ?s1 @ n2"
        using tg by (auto simp: Ec2CreateTags_def callCreateTags_def split: if_splits prod.splits)
      obtain wres s3 where wt: "resourceAwsAmiWaitForAvailable (TimeoutCreate (d\<lparr>ResId := i\<rparr>)) i ?c s2 = (wres, s3)"
        by (cases "resourceAwsAmiWaitForAvailable (TimeoutCreate (d\<lparr>ResId := i\<rparr>)) i ?c s2") auto
      from WaitForAvailable_log[OF wt] obtain n3 where s3: "snd s3 = snd s2 @ n3" by blast
      obtain r4 d4 s4 where rd: "resourceAwsAmiRead meta (d\<lparr>ResId := i\<rparr>) s3 = (r4, d4, s4)"
        by (cases "resourceAwsAmiRead meta (d\<lparr>ResId := i\<rparr>) s3") auto
      from Read_log[OF rd] obtain n4 where s4: "snd s4 = snd s3 @ n4" by blast
      show ?thesis using assms call bd None Some tg wt rd s2 s3 s4
        by (auto simp: resourceAwsAmiCreate_def Let_def split: option.splits sum.splits)
    qed
  qed
qed

text \<open>
  C8. When no element of \<open>ebs_block_device\<close> sets both a snapshot id and \<open>encrypted\<close>,
  the first call of the create is \<open>RegisterImage\<close>, and in its request the k-th block
  device mapping is the one of the k-th element: it carries \<open>Iops\<close> exactly when the
  element declares a non-zero \<open>iops\<close> (and then that value), and \<open>VolumeSize\<close> exactly
  when the element declares a non-zero \<open>volume_size\<close> (and then that value).
\<close>

theorem create_request_omits_zero_iops_and_volume_size:
  assumes "\<not> (\<exists>e \<in> set (ebs_block_device d). snapshot_id e \<noteq> [] \<and> encrypted e)"
      and "k < length (ebs_block_device d)"
  shows "\<exists>req err rest ebs.
           snd (snd (snd (resourceAwsAmiCreate meta d (w, [])))) = (RegisterImageCall req, err) # rest \<and>
           DeviceName (BlockDeviceMappings req ! k) = Some (device_name (ebs_block_device d ! k)) \<and>
           Ebs (BlockDeviceMappings req ! k) = Some ebs \<and>
           (Iops ebs \<noteq> None) = (\<exists>n. iops (ebs_block_device d ! k) = Some n \<and> n \<noteq> 0) \<and>
           (Iops ebs = None \<or> Iops ebs = iops (ebs_block_device d ! k)) \<and>
           (VolumeSize ebs \<noteq> None) = (\<exists>n. volume_size (ebs_block_device d ! k) = Some n \<and> n \<noteq> 0) \<and>
           (VolumeSize ebs = None \<or> VolumeSize ebs = volume_size (ebs_block_device d ! k))"
proof -
  let ?g = "\<lambda>e. if snapshot_id e \<noteq> [] then setSnapshotId (snapshot_id e) (ebsBlockDevMapping e)
                      else if encrypted e then setEncrypted (ebsBlockDevMapping e)
                      else ebsBlockDevMapping e"
  let ?devs = "ebs_block_device d"
  have ok: "createEbsBlockDevs ?devs [] = Inr ([] @ map ?g ?devs)"
    by (rule createEbsBlockDevs_ok[OF assms(1)])
  then have ok': "createEbsBlockDevs ?devs [] = Inr (map ?g ?devs)" by simp
  let ?req = "(createRequest d)\<lparr>BlockDeviceMappings :=
                  map ?g ?devs @ createEphemeralBlockDevs (ephemeral_block_device d)\<rparr>"
  from Create_log_head[OF ok', of meta w "[]"] obtain err rest where
    lg: "snd (snd (snd (resourceAwsAmiCreate meta d (w, [])))) = (RegisterImageCall ?req, err) # rest"
    by auto
  have nth: "BlockDeviceMappings ?req ! k = ?g (?devs ! k)"
    using assms(2) by (simp add: nth_append)
  from final_mapping_fields[of "?devs ! k"] obtain ebs where
    e: "Ebs (?g (?devs ! k)) = Some ebs" "DeviceName (?g (?devs ! k)) = Some (device_name (?devs ! k))"
       "Iops ebs = (case iops (?devs ! k) of Some n \<Rightarrow> if n \<noteq> 0 then Some n else None | None \<Rightarrow> None)"
       "VolumeSize ebs = (case volume_size (?devs ! k) of Some n \<Rightarrow> if n \<noteq> 0 then Some n else None | None \<Rightarrow> None)"
    by blast
  have "(Iops ebs \<noteq> None) = (\<exists>n. iops (?devs ! k) = Some n \<and> n \<noteq> 0)"
       "(Iops ebs = None \<or> Iops ebs = iops (?devs ! k))"
       "(VolumeSize ebs \<noteq> None) = (\<exists>n. volume_size (?devs ! k) = Some n \<and> n \<noteq> 0)"
       "(VolumeSize ebs = None \<or> VolumeSize ebs = volume_size (?devs ! k))"
    using e(3,4) by (auto split: option.splits if_splits)
  with lg nth e(1,2) show ?thesis
    by (intro exI[of _ ?req] exI[of _ err] exI[of _ rest] exI[of _ ebs]) (simp only: simp_thms)
qed

theorem create_request_omits_zero_iops_and_volume_size_witness:
  "\<not> (\<exists>e \<in> set (ebs_block_device (exampleData [exampleEbs ''/dev/sda1'' [] False])).
        snapshot_id e \<noteq> [] \<and> encrypted e) \<and>
   (0::nat) < length (ebs_block_device (exampleData [exampleEbs ''/dev/sda1'' [] False])) \<and>
   (\<exists>req err rest ebs.
      snd (snd (snd (resourceAwsAmiCreate (exampleMeta describeGone deleteSucceeds)
                       (exampleData [exampleEbs ''/dev/sda1'' [] False]) (0, [])))) =
        (RegisterImageCall req, err) # rest \<and>
      DeviceName (BlockDeviceMappings req ! 0) = Some ''/dev/sda1'' \<and>
      Ebs (BlockDeviceMappings req ! 0) = Some ebs \<and>
      Iops ebs = None \<and> VolumeSize ebs = Some 8)"
proof -
  let ?d = "exampleData [exampleEbs ''/dev/sda1'' [] False]"
  have h1: "\<not> (\<exists>e \<in> set (ebs_block_device ?d). snapshot_id e \<noteq> [] \<and> encrypted e)"
    by (simp add: exampleData_def exampleEbs_def)
  have h2: "(0::nat) < length (ebs_block_device ?d)"
    by (simp add: exampleData_def)
  have v: "ebs_block_device ?d ! 0 = exampleEbs ''/dev/sda1'' [] False"
    by (simp add: exampleData_def)
  from create_request_omits_zero_iops_and_volume_size[OF h1 h2,
         of "exampleMeta describeGone deleteSucceeds" 0]
  obtain req err rest ebs where
    "snd (snd (snd (resourceAwsAmiCreate (exampleMeta describeGone deleteSucceeds)
                       ?d (0, [])))) = (RegisterImageCall req, err) # rest"
    "DeviceName (BlockDeviceMappings req ! 0) = Some (device_name (ebs_block_device ?d ! 0))"
    "Ebs (BlockDeviceMappings req ! 0) = Some ebs"
    "(Iops ebs \<noteq> None) = (\<exists>n. iops (ebs_block_device ?d ! 0) = Some n \<and> n \<noteq> 0)"
    "(VolumeSize ebs \<noteq> None) = (\<exists>n. volume_size (ebs_block_device ?d ! 0) = Some n \<and> n \<noteq> 0)"
    "VolumeSize ebs = None \<or> VolumeSize ebs = volume_size (ebs_block_device ?d ! 0)"
    by blast
  then have "snd (snd (snd (resourceAwsAmiCreate (exampleMeta describeGone deleteSucceeds)
                       ?d (0, [])))) = (RegisterImageCall req, err) # rest \<and>
      DeviceName (BlockDeviceMappings req ! 0) = Some ''/dev/sda1'' \<and>
      Ebs (BlockDeviceMappings req ! 0) = Some ebs \<and>
      Iops ebs = None \<and> VolumeSize ebs = Some 8"
    unfolding v by (auto simp: exampleEbs_def)
  then show ?thesis using h1 h2 by blast
qed

subsection \<open>Create: the order of the steps\<close>







subsection \<open>Read: an absent image\<close>

lemma Retry_once:
  "f s = (None, s') \<Longrightarrow> Retry n f s = (None, s')"
  by (cases n) simp_all

text \<open>
  C7. The read of a resource that is not marked new whose describe call answers with the
  error \<open>InvalidAMIID.NotFound\<close>, the read whose describe call answers without an error
  and without exactly one image, and the read whose describe call answers with one image
  in state \<open>deregistered\<close>, all return no error and clear the identifier, after that one
  describe call. The describe call hands back its output together with the error, as the
  AWS SDK does, and a not-found answer carries no single image.
\<close>

theorem read_absent_clears_id:
  assumes desc: "DescribeImages (ec2conn meta) (ResId d) w = ((Some out, err), w1)"
      and gone: "(\<exists>m. err = Some (AWSErr ''InvalidAMIID.NotFound'' m)) \<and> \<not> IsNewResource d \<and>
                   length (Images out) \<noteq> 1
                 \<or> err = None \<and> length (Images out) \<noteq> 1
                 \<or> err = None \<and> (\<exists>img. Images out = [img] \<and> ImageState img = ImageStateDeregistered)"
  shows "resourceAwsAmiRead meta d (w, l) =
           (None, d\<lparr>ResId := []\<rparr>, (w1, l @ [(DescribeImagesCall (ResId d), err)]))"
proof -
  let ?c = "ec2conn meta" and ?i = "ResId d"
  let ?s1 = "(w1, l @ [(DescribeImagesCall ?i, err)])"
  have call: "callDescribeImages ?c ?i (w, l) = ((Some out, err), ?s1)"
    by (simp add: callDescribeImages_def desc)
  from gone consider
      (nf) m where "err = Some (AWSErr ''InvalidAMIID.NotFound'' m)" "\<not> IsNewResource d"
                   "length (Images out) \<noteq> 1"
    | (none) "err = None" "length (Images out) \<noteq> 1"
    | (dereg) img where "err = None" "Images out = [img]" "ImageState img = ImageStateDeregistered"
    by blast
  then show ?thesis
  proof cases
    case nf
    have "readRetryFunc ?c ?i (None, d, (w, l)) = (None, (Some out, d\<lparr>ResId := []\<rparr>, ?s1))"
      using nf by (simp add: readRetryFunc_def call)
    from Retry_once[of "readRetryFunc ?c ?i", OF this] show ?thesis
      using nf by (simp add: resourceAwsAmiRead_def Let_def)
  next
    case none
    have "readRetryFunc ?c ?i (None, d, (w, l)) = (None, (Some out, d, ?s1))"
      using none by (simp add: readRetryFunc_def call)
    from Retry_once[of "readRetryFunc ?c ?i", OF this] show ?thesis
      using none by (simp add: resourceAwsAmiRead_def Let_def)
  next
    case dereg
    have "readRetryFunc ?c ?i (None, d, (w, l)) = (None, (Some out, d, ?s1))"
      using dereg by (simp add: readRetryFunc_def call)
    from Retry_once[of "readRetryFunc ?c ?i", OF this] show ?thesis
      using dereg
      by (simp add: resourceAwsAmiRead_def Let_def ImageStateDeregistered_def
                    ImageStatePending_def)
  qed
qed

theorem read_absent_clears_id_witness:
  "DescribeImages (ec2conn (exampleMeta describeGone deleteSucceeds)) (ResId (exampleData [])) 0 =
     ((Some \<lparr>Images = []\<rparr>, Some notFound), 1) \<and>
   \<not> IsNewResource (exampleData []) \<and>
   resourceAwsAmiRead (exampleMeta describeGone deleteSucceeds) (exampleData []) (0, []) =
     (None, (exampleData [])\<lparr>ResId := []\<rparr>, (1, [(DescribeImagesCall ''ami-1'', Some notFound)])) \<and>
   DescribeImages (ec2conn (exampleMeta describeDeregistered deleteSucceeds)) (ResId (exampleData [])) 0 =
     ((Some \<lparr>Images = [exampleImage ImageStateDeregistered]\<rparr>, None), 1) \<and>
   resourceAwsAmiRead (exampleMeta describeDeregistered deleteSucceeds) (exampleData []) (0, []) =
     (None, (exampleData [])\<lparr>ResId := []\<rparr>, (1, [(DescribeImagesCall ''ami-1'', None)]))"
proof -
  have i: "ResId (exampleData []) = ''ami-1''" and n: "\<not> IsNewResource (exampleData [])"
    by (simp_all add: exampleData_def)
  have h1: "DescribeImages (ec2conn (exampleMeta describeGone deleteSucceeds)) (ResId (exampleData [])) 0 =
     ((Some \<lparr>Images = []\<rparr>, Some notFound), 1)"
    by (simp add: exampleMeta_def scriptedEC2_def describeGone_def)
  have g1: "(\<exists>m. Some notFound = Some (AWSErr ''InvalidAMIID.NotFound'' m)) \<and>
              \<not> IsNewResource (exampleData []) \<and> length (Images \<lparr>Images = []\<rparr>) \<noteq> 1
            \<or> Some notFound = None \<and> length (Images \<lparr>Images = []\<rparr>) \<noteq> 1
            \<or> Some notFound = None \<and>
               (\<exists>img. Images \<lparr>Images = []\<rparr> = [img] \<and> ImageState img = ImageStateDeregistered)"
    using n by (simp add: notFound_def)
  have h2: "DescribeImages (ec2conn (exampleMeta describeDeregistered deleteSucceeds)) (ResId (exampleData [])) 0 =
     ((Some \<lparr>Images = [exampleImage ImageStateDeregistered]\<rparr>, None), 1)"
    by (simp add: exampleMeta_def scriptedEC2_def describeDeregistered_def)
  have g2: "(\<exists>m. (None :: error option) = Some (AWSErr ''InvalidAMIID.NotFound'' m)) \<and>
              \<not> IsNewResource (exampleData []) \<and>
              length (Images \<lparr>Images = [exampleImage ImageStateDeregistered]\<rparr>) \<noteq> 1
            \<or> (None :: error option) = None \<and>
              length (Images \<lparr>Images = [exampleImage ImageStateDeregistered]\<rparr>) \<noteq> 1
            \<or> (None :: error option) = None \<and>
               (\<exists>img. Images \<lparr>Images = [exampleImage ImageStateDeregistered]\<rparr> = [img] \<and>
                      ImageState img = ImageStateDeregistered)"
    by (simp add: exampleImage_def)
  show ?thesis
    using h1 h2 n read_absent_clears_id[OF h1 g1, of "[]"] read_absent_clears_id[OF h2 g2, of "[]"]
    by (simp add: i)
qed

subsection \<open>The refresh function on a missing image\<close>

lemma WaitForStateN_first:
  "probeOnce conf s = (Reached r, s') \<Longrightarrow> WaitForStateN n conf s = (Inr r, s')"
  "probeOnce conf s = (Failed e, s') \<Longrightarrow> WaitForStateN n conf s = (Inl e, s')"
  by (cases n; simp)+

text \<open>
  C3, as the code has it. The refresh function takes no new-resource mark: whenever the
  describe call answers with \<open>InvalidAMIID.NotFound\<close> it reports the synthetic status
  \<open>destroyed\<close> without an error. That status is the target of the destroyed-wait, which
  ends successfully on it, and is neither pending nor target of the availability wait,
  which ends on it at once with the unexpected-state error, after that single probe.
  Only the function retried by the read looks at the mark: it asks for a retry when the
  resource is new and gives up the identifier otherwise.
\<close>

theorem not_found_probe_reports_destroyed:
  assumes desc: "DescribeImages client i (fst s) = ((resp, Some e), w')"
      and nf: "isAWSErr e ''InvalidAMIID.NotFound''"
  shows "AMIStateRefreshFunc client i s =
           ((emptyResp, ''destroyed'', None), (w', snd s @ [(DescribeImagesCall i, Some e)])) \<and>
         resourceAwsAmiWaitForAvailable n i client s =
           (Inl (ErrorString (''Error waiting for AMI ('' @ i @ '') to be ready: '' @
                              Error (UnexpectedStateError ''destroyed''))),
            (w', snd s @ [(DescribeImagesCall i, Some e)])) \<and>
         resourceAwsAmiWaitForDestroy n i client s =
           (None, (w', snd s @ [(DescribeImagesCall i, Some e)])) \<and>
         fst (readRetryFunc client i (res0, d, s)) =
           (if IsNewResource d then Some (RetryableError e) else None)"
proof -
  let ?s1 = "(w', snd s @ [(DescribeImagesCall i, Some e)])"
  have call: "callDescribeImages client i s = ((resp, Some e), ?s1)"
    by (simp add: callDescribeImages_def desc)
  have refresh: "AMIStateRefreshFunc client i s = ((emptyResp, ''destroyed'', None), ?s1)"
    by (simp add: AMIStateRefreshFunc_def call nf)
  let ?avail = "\<lparr>Pending = [ImageStatePending], Target = [ImageStateAvailable],
                 Refresh = AMIStateRefreshFunc client i, Timeout = n\<rparr>"
  let ?destroy = "\<lparr>Pending = [ImageStateAvailable, ImageStatePending, ImageStateFailed],
                   Target = [''destroyed''],
                   Refresh = AMIStateRefreshFunc client i, Timeout = n\<rparr>"
  have "probeOnce ?avail s = (Failed (UnexpectedStateError ''destroyed''), ?s1)"
    by (simp add: probeOnce_def refresh ImageStatePending_def ImageStateAvailable_def)
  then have "WaitForStateN n ?avail s = (Inl (UnexpectedStateError ''destroyed''), ?s1)"
    by (rule WaitForStateN_first(2))
  then have avail: "resourceAwsAmiWaitForAvailable n i client s =
           (Inl (ErrorString (''Error waiting for AMI ('' @ i @ '') to be ready: '' @
                              Error (UnexpectedStateError ''destroyed''))), ?s1)"
    by (simp add: resourceAwsAmiWaitForAvailable_def WaitForState_def)
  have "probeOnce ?destroy s = (Reached emptyResp, ?s1)"
    by (simp add: probeOnce_def refresh)
  then have "WaitForStateN n ?destroy s = (Inr emptyResp, ?s1)"
    by (rule WaitForStateN_first(1))
  then have destroy: "resourceAwsAmiWaitForDestroy n i client s = (None, ?s1)"
    by (simp add: resourceAwsAmiWaitForDestroy_def WaitForState_def)
  have retry: "fst (readRetryFunc client i (res0, d, s)) =
           (if IsNewResource d then Some (RetryableError e) else None)"
    by (simp add: readRetryFunc_def call nf)
  from refresh avail destroy retry show ?thesis by (simp only: simp_thms)
qed

theorem not_found_probe_reports_destroyed_witness:
  "DescribeImages (scriptedEC2 describeGoneThenAvailable deleteSucceeds) ''ami-1'' (fst (0, [])) =
     ((Some \<lparr>Images = []\<rparr>, Some notFound), 1) \<and>
   isAWSErr notFound ''InvalidAMIID.NotFound'' \<and>
   resourceAwsAmiWaitForAvailable 3 ''ami-1'' (scriptedEC2 describeGoneThenAvailable deleteSucceeds) (0, []) =
     (Inl (ErrorString ''Error waiting for AMI (ami-1) to be ready: unexpected state destroyed''),
      (1, [(DescribeImagesCall ''ami-1'', Some notFound)])) \<and>
   resourceAwsAmiWaitForDestroy 3 ''ami-1'' (scriptedEC2 describeGoneThenAvailable deleteSucceeds) (0, []) =
     (None, (1, [(DescribeImagesCall ''ami-1'', Some notFound)]))"
proof -
  have h1: "DescribeImages (scriptedEC2 describeGoneThenAvailable deleteSucceeds) ''ami-1'' (fst (0, [])) =
     ((Some \<lparr>Images = []\<rparr>, Some notFound), 1)"
    by (simp add: scriptedEC2_def describeGoneThenAvailable_def describeGone_def)
  have h2: "isAWSErr notFound ''InvalidAMIID.NotFound''"
    by (simp add: notFound_def)
  show ?thesis
    using h1 h2 not_found_probe_reports_destroyed[OF h1 h2, of 3]
    by simp
qed

text \<open>
  C3, as stated, fails: a create of a resource marked new whose first probe answers
  \<open>InvalidAMIID.NotFound\<close>, the image being available from the second probe on, returns
  the error of the wait after one probe instead of polling on.
\<close>

theorem create_not_found_while_new_counterexample:
  "IsNewResource exampleNewData \<and>
   DescribeImages (ec2conn (exampleMeta describeGoneThenAvailable deleteSucceeds)) ''ami-1'' 0 =
     ((Some \<lparr>Images = []\<rparr>, Some notFound), 1) \<and>
   DescribeImages (ec2conn (exampleMeta describeGoneThenAvailable deleteSucceeds)) ''ami-1'' 1 =
     ((Some \<lparr>Images = [exampleImage ImageStateAvailable]\<rparr>, None), 2) \<and>
   fst (resourceAwsAmiCreate (exampleMeta describeGoneThenAvailable deleteSucceeds) exampleNewData (0, [])) =
     Some (ErrorString ''Error waiting for AMI (ami-1) to be ready: unexpected state destroyed'') \<and>
   map fst (snd (snd (snd (resourceAwsAmiCreate (exampleMeta describeGoneThenAvailable deleteSucceeds)
                             exampleNewData (0, []))))) =
     [RegisterImageCall ((createRequest exampleNewData)\<lparr>BlockDeviceMappings :=
                            [ebsBlockDevMapping (exampleEbs ''/dev/sda1'' [] False)]\<rparr>),
      CreateTagsCall ''ami-1'' [(''env'', ''dev'')],
      DescribeImagesCall ''ami-1'']"
  by (simp add: resourceAwsAmiCreate_def exampleMeta_def exampleNewData_def exampleData_def
        scriptedEC2_def Let_def callRegisterImage_def
        createEphemeralBlockDevs_def Ec2CreateTags_def callCreateTags_def
        resourceAwsAmiWaitForAvailable_def WaitForState_def probeOnce_def AMIStateRefreshFunc_def
        callDescribeImages_def describeGoneThenAvailable_def describeGone_def describeAvailable_def
        notFound_def ImageStateAvailable_def ImageStatePending_def numeral_3_eq_3
        exampleEbs_def createRequest_def ebsBlockDevMapping_def)

subsection \<open>Delete: after a successful deregistration\<close>

lemma set_update_cases:
  "(k', v') \<in> set (AList.update k v al) \<Longrightarrow> (k', v') = (k, v) \<or> (k', v') \<in> set al"
  by (induction al) (auto split: if_splits)

lemma deleteSnapshots_log:
  "deleteSnapshots client devs errs s = (errs', s') \<Longrightarrow>
     \<exists>new. snd s' = snd s @ new \<and>
           map fst new = map DeleteSnapshotCall [sid \<leftarrow> map snapshot_id devs. sid \<noteq> []] \<and>
           fst ` set errs' = fst ` set errs \<union> {sid. \<exists>e. (DeleteSnapshotCall sid, Some e) \<in> set new} \<and>
           (\<forall>sid e. (sid, e) \<in> set errs' \<longrightarrow>
                      (sid, e) \<in> set errs \<or> (DeleteSnapshotCall sid, Some e) \<in> set new)"
proof (induction devs arbitrary: errs s)
  case Nil
  then show ?case by auto
next
  case (Cons dev rest)
  let ?sid = "snapshot_id dev"
  show ?case
  proof (cases "?sid = []")
    case True
    with Cons.prems have "deleteSnapshots client rest errs s = (errs', s')" by (simp add: Let_def)
    from Cons.IH[OF this] True show ?thesis by simp
  next
    case False
    obtain err s1 where call: "callDeleteSnapshot client ?sid s = (err, s1)"
      by (cases "callDeleteSnapshot client ?sid s") auto
    then have s1: "snd s1 = snd s @ [(DeleteSnapshotCall ?sid, err)]"
      by (auto simp: callDeleteSnapshot_def split: prod.splits)
    show ?thesis
    proof (cases err)
      case None
      with Cons.prems False call have "deleteSnapshots client rest errs s1 = (errs', s')"
        by (simp add: Let_def)
      from Cons.IH[OF this] obtain new where
        n: "snd s' = snd s1 @ new"
           "map fst new = map DeleteSnapshotCall [sid \<leftarrow> map snapshot_id rest. sid \<noteq> []]"
           "fst ` set errs' = fst ` set errs \<union> {sid. \<exists>e. (DeleteSnapshotCall sid, Some e) \<in> set new}"
           "\<forall>sid e. (sid, e) \<in> set errs' \<longrightarrow>
                      (sid, e) \<in> set errs \<or> (DeleteSnapshotCall sid, Some e) \<in> set new"
        by blast
      show ?thesis
        using n s1 None False
        by (intro exI[of _ "(DeleteSnapshotCall ?sid, err) # new"]) auto
    next
      case (Some x)
      with Cons.prems False call
      have "deleteSnapshots client rest (AList.update ?sid x errs) s1 = (errs', s')"
        by (simp add: Let_def)
      from Cons.IH[OF this] obtain new where
        n: "snd s' = snd s1 @ new"
           "map fst new = map DeleteSnapshotCall [sid \<leftarrow> map snapshot_id rest. sid \<noteq> []]"
           "fst ` set errs' = fst ` set (AList.update ?sid x errs) \<union>
                               {sid. \<exists>e. (DeleteSnapshotCall sid, Some e) \<in> set new}"
           "\<forall>sid e. (sid, e) \<in> set errs' \<longrightarrow>
                      (sid, e) \<in> set (AList.update ?sid x errs) \<or>
                      (DeleteSnapshotCall sid, Some e) \<in> set new"
        by blast
      have dom: "fst ` set (AList.update ?sid x errs) = insert ?sid (fst ` set errs)"
        by (simp add: AList.dom_update)
      show ?thesis
      proof (intro exI[of _ "(DeleteSnapshotCall ?sid, err) # new"] conjI)
        show "snd s' = snd s @ (DeleteSnapshotCall ?sid, err) # new" using n(1) s1 by simp
        show "map fst ((DeleteSnapshotCall ?sid, err) # new) =
                map DeleteSnapshotCall [sid \<leftarrow> map snapshot_id (dev # rest). sid \<noteq> []]"
          using n(2) False by simp
        show "fst ` set errs' = fst ` set errs \<union>
                {sid. \<exists>e. (DeleteSnapshotCall sid, Some e) \<in> set ((DeleteSnapshotCall ?sid, err) # new)}"
          using n(3) dom Some by auto
        show "\<forall>sid e. (sid, e) \<in> set errs' \<longrightarrow>
                      (sid, e) \<in> set errs \<or>
                      (DeleteSnapshotCall sid, Some e) \<in> set ((DeleteSnapshotCall ?sid, err) # new)"
          using n(4) Some by (auto dest: set_update_cases)
      qed
    qed
  qed
qed

lemma WaitForStateN_target:
  "WaitForStateN n conf s = (Inr r, s') \<Longrightarrow>
     \<exists>s0 st. Refresh conf s0 = ((r, st, None), s') \<and> st \<in> set (Target conf)"
proof (induction n arbitrary: s)
  case 0
  then show ?case
    by (auto simp: probeOnce_def split: prod.splits option.splits if_splits probe.splits)
next
  case (Suc n)
  obtain p s1 where p: "probeOnce conf s = (p, s1)" by (cases "probeOnce conf s") auto
  show ?case
  proof (cases p)
    case (Reached x)
    with Suc.prems p have "x = r" "s1 = s'" by auto
    with p Reached show ?thesis
      by (auto simp: probeOnce_def split: prod.splits option.splits if_splits)
  next
    case (Failed e)
    with Suc.prems p show ?thesis by auto
  next
    case (StillPending st)
    with Suc.prems p have "WaitForStateN n conf s1 = (Inr r, s')" by simp
    from Suc.IH[OF this] show ?thesis .
  qed
qed

lemma WaitForDestroy_success:
  assumes "resourceAwsAmiWaitForDestroy n i client s = (None, s')"
  shows "\<exists>s0 info. AMIStateRefreshFunc client i s0 = ((info, ''destroyed'', None), s')"
proof -
  let ?conf = "\<lparr>Pending = [ImageStateAvailable, ImageStatePending, ImageStateFailed],
                Target = [''destroyed''],
                Refresh = AMIStateRefreshFunc client i, Timeout = n\<rparr>"
  from assms obtain info where "WaitForStateN n ?conf s = (Inr info, s')"
    by (auto simp: resourceAwsAmiWaitForDestroy_def WaitForState_def Let_def
             split: prod.splits sum.splits)
  from WaitForStateN_target[OF this] show ?thesis by auto
qed

text \<open>What the delete does once the deregistration has succeeded.\<close>

lemma Delete_after_deregister:
  assumes dereg: "DeregisterImage (ec2conn meta) (ResId d) w = (None, w1)"
      and run: "resourceAwsAmiDelete meta d (w, []) = (r, d', s')"
  shows "\<exists>errs s2 new.
           (if manage_ebs_snapshots d
            then deleteSnapshots (ec2conn meta) (ebs_block_device d) []
                   (w1, [(DeregisterImageCall (ResId d), None)])
            else ([], (w1, [(DeregisterImageCall (ResId d), None)]))) = (errs, s2) \<and>
           snd s2 = (DeregisterImageCall (ResId d), None) # new \<and>
           map fst new = (if manage_ebs_snapshots d
                          then map DeleteSnapshotCall [sid \<leftarrow> map snapshot_id (ebs_block_device d). sid \<noteq> []]
                          else []) \<and>
           fst ` set errs = {sid. \<exists>e. (DeleteSnapshotCall sid, Some e) \<in> set new} \<and>
           (\<forall>sid e. (sid, e) \<in> set errs \<longrightarrow> (DeleteSnapshotCall sid, Some e) \<in> set new) \<and>
           d' = d \<and>
           (if errs \<noteq> []
            then r = Some (ErrorString (Join (snapshotErrParts (mapRange meta errs)) [CHR 0x0A])) \<and> s' = s2
            else resourceAwsAmiWaitForDestroy (TimeoutDelete d) (ResId d) (ec2conn meta) s2 = (r, s'))"
proof -
  let ?c = "ec2conn meta" and ?i = "ResId d"
  let ?s1 = "(w1, [(DeregisterImageCall ?i, None)])"
  have call: "callDeregisterImage ?c ?i (w, []) = (None, ?s1)"
    by (simp add: callDeregisterImage_def dereg)
  obtain errs s2 where ds: "(if manage_ebs_snapshots d
            then deleteSnapshots ?c (ebs_block_device d) [] ?s1 else ([], ?s1)) = (errs, s2)"
    by (cases "(if manage_ebs_snapshots d
            then deleteSnapshots ?c (ebs_block_device d) [] ?s1 else ([], ?s1))") auto
  have "\<exists>new. snd s2 = snd ?s1 @ new \<and>
           map fst new = (if manage_ebs_snapshots d
                          then map DeleteSnapshotCall [sid \<leftarrow> map snapshot_id (ebs_block_device d). sid \<noteq> []]
                          else []) \<and>
           fst ` set errs = {sid. \<exists>e. (DeleteSnapshotCall sid, Some e) \<in> set new} \<and>
           (\<forall>sid e. (sid, e) \<in> set errs \<longrightarrow> (DeleteSnapshotCall sid, Some e) \<in> set new)"
  proof (cases "manage_ebs_snapshots d")
    case True
    with ds have "deleteSnapshots ?c (ebs_block_device d) [] ?s1 = (errs, s2)" by simp
    from deleteSnapshots_log[OF this] True show ?thesis by auto
  next
    case False
    with ds show ?thesis by auto
  qed
  then obtain new where new: "snd s2 = (DeregisterImageCall ?i, None) # new"
     "map fst new = (if manage_ebs_snapshots d
                          then map DeleteSnapshotCall [sid \<leftarrow> map snapshot_id (ebs_block_device d). sid \<noteq> []]
                          else [])"
     "fst ` set errs = {sid. \<exists>e. (DeleteSnapshotCall sid, Some e) \<in> set new}"
     "\<forall>sid e. (sid, e) \<in> set errs \<longrightarrow> (DeleteSnapshotCall sid, Some e) \<in> set new"
    by auto
  have res: "d' = d \<and>
           (if errs \<noteq> []
            then r = Some (ErrorString (Join (snapshotErrParts (mapRange meta errs)) [CHR 0x0A])) \<and> s' = s2
            else resourceAwsAmiWaitForDestroy (TimeoutDelete d) ?i ?c s2 = (r, s'))"
    using run call ds
    by (auto simp: resourceAwsAmiDelete_def Let_def split: prod.splits option.splits if_splits)
  show ?thesis
    using ds new res
    by (intro exI[of _ errs] exI[of _ s2] exI[of _ new]) blast
qed

subsection \<open>Delete: the destroyed-wait\<close>

text \<open>The definitions that evaluate the delete on the example inputs.\<close>

lemmas example_eval =
  resourceAwsAmiDelete_def exampleMeta_def exampleThreeSnapshots_def exampleData_def
  exampleEbs_def scriptedEC2_def Let_def callDeregisterImage_def callDeleteSnapshot_def
  refuseS2_def snapshotInUse_def resourceAwsAmiWaitForDestroy_def WaitForState_def
  probeOnce_def AMIStateRefreshFunc_def callDescribeImages_def describeGone_def notFound_def
  emptyResp_def numeral_3_eq_3 deleteSucceeds_def

text \<open>
  C2, as the code has it. After a successful deregistration the delete runs the
  destroyed-wait exactly when no snapshot deletion failed: then its result is the result
  of the wait, at least one describe call has been made, and it returns no error only
  when the last probe reported \<open>destroyed\<close>. When a snapshot deletion failed, the delete
  returns an error and has made no describe call.
\<close>

theorem delete_waits_unless_snapshot_errors:
  assumes dereg: "DeregisterImage (ec2conn meta) (ResId d) w = (None, w1)"
      and run: "resourceAwsAmiDelete meta d (w, []) = (r, d', (w', l))"
  shows "if \<exists>sid e. (DeleteSnapshotCall sid, Some e) \<in> set l
         then r \<noteq> None \<and> DescribeImagesCall (ResId d) \<notin> fst ` set l
         else (\<exists>s2. resourceAwsAmiWaitForDestroy (TimeoutDelete d) (ResId d) (ec2conn meta) s2
                      = (r, (w', l))) \<and>
              (\<exists>e. (DescribeImagesCall (ResId d), e) \<in> set l) \<and>
              (r = None \<longrightarrow>
                 (\<exists>s0 info. AMIStateRefreshFunc (ec2conn meta) (ResId d) s0 =
                               ((info, ''destroyed'', None), (w', l))))"
proof -
  let ?c = "ec2conn meta" and ?i = "ResId d"
  from Delete_after_deregister[OF dereg run] obtain errs s2 new where
    s2: "snd s2 = (DeregisterImageCall ?i, None) # new"
    and calls: "map fst new = (if manage_ebs_snapshots d
                  then map DeleteSnapshotCall [sid \<leftarrow> map snapshot_id (ebs_block_device d). sid \<noteq> []]
                  else [])"
    and dom: "fst ` set errs = {sid. \<exists>e. (DeleteSnapshotCall sid, Some e) \<in> set new}"
    and res: "if errs \<noteq> []
              then r = Some (ErrorString (Join (snapshotErrParts (mapRange meta errs)) [CHR 0x0A])) \<and>
                   (w', l) = s2
              else resourceAwsAmiWaitForDestroy (TimeoutDelete d) ?i ?c s2 = (r, (w', l))"
    by blast
  have nodesc: "DescribeImagesCall ?i \<notin> fst ` set new"
  proof
    assume "DescribeImagesCall ?i \<in> fst ` set new"
    then have "DescribeImagesCall ?i \<in> set (map fst new)" by simp
    with calls show False by (auto split: if_splits)
  qed
  show ?thesis
  proof (cases "errs = []")
    case False
    with res have r: "r = Some (ErrorString (Join (snapshotErrParts (mapRange meta errs)) [CHR 0x0A]))"
      and l: "l = snd s2" by (auto simp: prod_eq_iff)
    from False obtain sid e where "(sid, e) \<in> set errs" by (cases errs) auto
    then have "sid \<in> fst ` set errs" by force
    with dom obtain e' where "(DeleteSnapshotCall sid, Some e') \<in> set new" by auto
    with l s2 have "\<exists>sid e. (DeleteSnapshotCall sid, Some e) \<in> set l" by auto
    moreover have "DescribeImagesCall ?i \<notin> fst ` set l"
      using l s2 nodesc by auto
    ultimately show ?thesis using r by simp
  next
    case True
    with res have wt: "resourceAwsAmiWaitForDestroy (TimeoutDelete d) ?i ?c s2 = (r, (w', l))" by simp
    from WaitForDestroy_log[OF wt] obtain n3 where
      n3: "l = snd s2 @ n3" "n3 \<noteq> []" "set (map fst n3) \<subseteq> {DescribeImagesCall ?i}" by auto
    from True dom have nofail_new: "\<not> (\<exists>sid e. (DeleteSnapshotCall sid, Some e) \<in> set new)" by auto
    have nofail: "\<not> (\<exists>sid e. (DeleteSnapshotCall sid, Some e) \<in> set l)"
    proof
      assume "\<exists>sid e. (DeleteSnapshotCall sid, Some e) \<in> set l"
      then obtain sid e where m: "(DeleteSnapshotCall sid, Some e) \<in> set l" by blast
      with n3(1) s2 nofail_new have "(DeleteSnapshotCall sid, Some e) \<in> set n3" by auto
      then have "DeleteSnapshotCall sid \<in> set (map fst n3)" by force
      with n3(3) show False by auto
    qed
    from n3(2) obtain c e where "(c, e) \<in> set n3" by (cases n3) auto
    moreover from this n3(3) have "c = DescribeImagesCall ?i" by force
    ultimately have probe: "\<exists>e. (DescribeImagesCall ?i, e) \<in> set l" using n3(1) by auto
    have succ: "r = None \<longrightarrow>
                 (\<exists>s0 info. AMIStateRefreshFunc ?c ?i s0 = ((info, ''destroyed'', None), (w', l)))"
      using wt WaitForDestroy_success by blast
    have ex: "\<exists>s2. resourceAwsAmiWaitForDestroy (TimeoutDelete d) ?i ?c s2 = (r, (w', l))"
      using wt by blast
    show ?thesis using nofail ex probe succ by (simp only: if_False simp_thms)
  qed
qed

theorem delete_waits_unless_snapshot_errors_witness:
  "DeregisterImage (ec2conn (exampleMeta describeGone deleteSucceeds)) (ResId exampleThreeSnapshots) 0 = (None, 0) \<and>
   resourceAwsAmiDelete (exampleMeta describeGone deleteSucceeds) exampleThreeSnapshots (0, []) =
     (None, exampleThreeSnapshots,
      (1, [(DeregisterImageCall ''ami-1'', None),
           (DeleteSnapshotCall ''s1'', None),
           (DeleteSnapshotCall ''s2'', None),
           (DeleteSnapshotCall ''s3'', None),
           (DescribeImagesCall ''ami-1'', Some notFound)])) \<and>
   (\<exists>s0 info. AMIStateRefreshFunc (ec2conn (exampleMeta describeGone deleteSucceeds)) ''ami-1'' s0 =
                 ((info, ''destroyed'', None),
                  (1, [(DeregisterImageCall ''ami-1'', None),
                       (DeleteSnapshotCall ''s1'', None),
                       (DeleteSnapshotCall ''s2'', None),
                       (DeleteSnapshotCall ''s3'', None),
                       (DescribeImagesCall ''ami-1'', Some notFound)])))"
proof -
  have i: "ResId exampleThreeSnapshots = ''ami-1''"
    by (simp add: exampleThreeSnapshots_def exampleData_def)
  have h1: "DeregisterImage (ec2conn (exampleMeta describeGone deleteSucceeds)) (ResId exampleThreeSnapshots) 0 = (None, 0)"
    by (simp add: exampleMeta_def scriptedEC2_def)
  have h2: "resourceAwsAmiDelete (exampleMeta describeGone deleteSucceeds) exampleThreeSnapshots (0, []) =
     (None, exampleThreeSnapshots,
      (1, [(DeregisterImageCall ''ami-1'', None),
           (DeleteSnapshotCall ''s1'', None),
           (DeleteSnapshotCall ''s2'', None),
           (DeleteSnapshotCall ''s3'', None),
           (DescribeImagesCall ''ami-1'', Some notFound)]))"
    by (simp add: example_eval)
  show ?thesis
    using h1 h2 delete_waits_unless_snapshot_errors[OF h1 h2]
    by (simp add: i)
qed

text \<open>
  C2, as stated, fails: with three managed snapshots of which \<open>s2\<close> cannot be deleted, the
  delete returns the aggregated error after the three \<open>DeleteSnapshot\<close> calls and makes
  no describe call, although the remote side would still report the image.
\<close>

theorem delete_snapshot_error_skips_wait_counterexample:
  "DeregisterImage (ec2conn (exampleMeta describeAvailable refuseS2)) (ResId exampleThreeSnapshots) 0 = (None, 0) \<and>
   resourceAwsAmiDelete (exampleMeta describeAvailable refuseS2) exampleThreeSnapshots (0, []) =
     (Some (ErrorString (Join (snapshotErrParts [(''s2'', snapshotInUse)]) [CHR 0x0A])),
      exampleThreeSnapshots,
      (0, [(DeregisterImageCall ''ami-1'', None),
           (DeleteSnapshotCall ''s1'', None),
           (DeleteSnapshotCall ''s2'', Some snapshotInUse),
           (DeleteSnapshotCall ''s3'', None)])) \<and>
   fst (DescribeImages (ec2conn (exampleMeta describeAvailable refuseS2)) ''ami-1'' 0) =
     (Some \<lparr>Images = [exampleImage ImageStateAvailable]\<rparr>, None)"
  by (simp add: example_eval describeAvailable_def)

subsection \<open>Update: tags and description\<close>

lemma Ec2UpdateTags_log:
  assumes "Ec2UpdateTags client i oldTags newTags s = (terr, s1)"
  shows "\<exists>tagCalls. snd s1 = snd s @ tagCalls \<and>
           set (map fst tagCalls) \<subseteq> {DeleteTagsCall i (removedTags oldTags newTags),
                                       CreateTagsCall i (updatedTags oldTags newTags)} \<and>
           (terr = None \<longrightarrow>
              map fst tagCalls =
                (if removedTags oldTags newTags \<noteq> []
                 then [DeleteTagsCall i (removedTags oldTags newTags)] else []) @
                (if updatedTags oldTags newTags \<noteq> []
                 then [CreateTagsCall i (updatedTags oldTags newTags)] else []))"
  using assms
  by (auto simp: Ec2UpdateTags_def callDeleteTags_def callCreateTags_def
           split: if_splits prod.splits option.splits)

text \<open>
  C5, as the code has it. In an update whose tags change and whose description is what
  it was, the first calls are those of the tag synchroniser for the old and the new tags:
  a remove-call for the dropped keys when there are any, then an apply-call for the added
  and the changed tags when there are any. When one of them fails, the update returns
  "error updating AMI (id) tags: ..." and calls nothing else. Otherwise the next call is
  \<open>ModifyImageAttribute\<close> with the description exactly when the description is not
  empty, whether it has changed or not, and all later calls are the describe calls of
  the read.
\<close>

theorem update_tags_then_description_if_nonempty:
  assumes chg: "HasChangeTags d"
      and same: "description d = description_old d"
      and run: "resourceAwsAmiUpdate meta d (w, []) = (r, d', (w', l))"
  shows "\<exists>terr s1.
           Ec2UpdateTags (ec2conn meta) (ResId d) (tags_old d) (tags d) (w, []) = (terr, s1) \<and>
           set (map fst (snd s1)) \<subseteq>
             {DeleteTagsCall (ResId d) (removedTags (tags_old d) (tags d)),
              CreateTagsCall (ResId d) (updatedTags (tags_old d) (tags d))} \<and>
           (case terr of
              Some e \<Rightarrow>
                l = snd s1 \<and>
                r = Some (ErrorString (''error updating AMI ('' @ ResId d @ '') tags: '' @ Error e))
            | None \<Rightarrow>
                map fst (snd s1) =
                  (if removedTags (tags_old d) (tags d) \<noteq> []
                   then [DeleteTagsCall (ResId d) (removedTags (tags_old d) (tags d))] else []) @
                  (if updatedTags (tags_old d) (tags d) \<noteq> []
                   then [CreateTagsCall (ResId d) (updatedTags (tags_old d) (tags d))] else []) \<and>
                (\<exists>merr rest.
                   l = snd s1 @
                       (if description d \<noteq> []
                        then [(ModifyImageAttributeCall (ResId d) (description d), merr)] else []) @
                       rest \<and>
                   set (map fst rest) \<subseteq> {DescribeImagesCall (ResId d)}))"
proof -
  let ?c = "ec2conn meta" and ?i = "ResId d"
  obtain terr s1 where tg: "Ec2UpdateTags ?c ?i (tags_old d) (tags d) (w, []) = (terr, s1)"
    by (cases "Ec2UpdateTags ?c ?i (tags_old d) (tags d) (w, [])") auto
  from Ec2UpdateTags_log[OF tg] have
    sub: "set (map fst (snd s1)) \<subseteq>
             {DeleteTagsCall ?i (removedTags (tags_old d) (tags d)),
              CreateTagsCall ?i (updatedTags (tags_old d) (tags d))}"
    and ok: "terr = None \<longrightarrow> map fst (snd s1) =
                  (if removedTags (tags_old d) (tags d) \<noteq> []
                   then [DeleteTagsCall ?i (removedTags (tags_old d) (tags d))] else []) @
                  (if updatedTags (tags_old d) (tags d) \<noteq> []
                   then [CreateTagsCall ?i (updatedTags (tags_old d) (tags d))] else [])"
    by auto
  have rest: "case terr of
              Some e \<Rightarrow>
                l = snd s1 \<and>
                r = Some (ErrorString (''error updating AMI ('' @ ?i @ '') tags: '' @ Error e))
            | None \<Rightarrow>
                (\<exists>merr rest.
                   l = snd s1 @
                       (if description d \<noteq> []
                        then [(ModifyImageAttributeCall ?i (description d), merr)] else []) @
                       rest \<and>
                   set (map fst rest) \<subseteq> {DescribeImagesCall ?i})"
  proof (cases terr)
    case (Some e)
    with run chg tg show ?thesis
      by (auto simp: resourceAwsAmiUpdate_def Let_def)
  next
    case None
    obtain merr s2 where md: "(if description d \<noteq> []
                 then callModifyImageAttribute ?c ?i (description d) s1
                 else (None, s1)) = (merr, s2)"
      by (cases "(if description d \<noteq> []
                 then callModifyImageAttribute ?c ?i (description d) s1
                 else (None, s1))") auto
    have s2: "snd s2 = snd s1 @ (if description d \<noteq> []
                        then [(ModifyImageAttributeCall ?i (description d), merr)] else [])"
      using md by (auto simp: callModifyImageAttribute_def split: if_splits prod.splits)
    show ?thesis
    proof (cases merr)
      case (Some e)
      with run chg tg None md have "l = snd s2"
        by (simp add: resourceAwsAmiUpdate_def Let_def)
      with s2 None show ?thesis by (auto intro!: exI[of _ merr] exI[of _ "[]"])
    next
      case N: None
      with run chg tg None md have rd: "resourceAwsAmiRead meta d s2 = (r, d', (w', l))"
        by (simp add: resourceAwsAmiUpdate_def Let_def)
      from Read_log[OF rd] obtain n3 where
        "l = snd s2 @ n3" "set (map fst n3) \<subseteq> {DescribeImagesCall ?i}" by auto
      with s2 None show ?thesis by (auto intro!: exI[of _ merr] exI[of _ n3])
    qed
  qed
  show ?thesis
    using tg sub ok rest
    by (intro exI[of _ terr] exI[of _ s1]) (auto split: option.splits)
qed

theorem update_tags_then_description_if_nonempty_witness:
  "HasChangeTags exampleRetagged \<and>
   description exampleRetagged = description_old exampleRetagged \<and>
   description exampleRetagged \<noteq> [] \<and>
   (\<exists>merr rest.
      snd (snd (snd (resourceAwsAmiUpdate (exampleMeta describeAvailable deleteSucceeds)
                       exampleRetagged (0, [])))) =
        [(CreateTagsCall ''ami-1'' [(''env'', ''prod''), (''team'', ''x'')], None),
         (ModifyImageAttributeCall ''ami-1'' ''base image'', merr)] @ rest \<and>
      set (map fst rest) \<subseteq> {DescribeImagesCall ''ami-1''})"
proof -
  let ?M = "exampleMeta describeAvailable deleteSucceeds"
  let ?X = "resourceAwsAmiUpdate ?M exampleRetagged (0, [])"
  have f: "ResId exampleRetagged = ''ami-1''" "description exampleRetagged = ''base image''"
          "tags_old exampleRetagged = [(''env'', ''dev'')]"
          "tags exampleRetagged = [(''env'', ''prod''), (''team'', ''x'')]"
    by (simp_all add: exampleRetagged_def exampleData_def)
  have h1: "HasChangeTags exampleRetagged"
    by (simp add: HasChangeTags_def f)
  have h2: "description exampleRetagged = description_old exampleRetagged"
    by (simp add: exampleRetagged_def exampleData_def)
  have h3: "?X = (fst ?X, fst (snd ?X), (fst (snd (snd ?X)), snd (snd (snd ?X))))" by simp
  have ev: "Ec2UpdateTags (ec2conn ?M) (ResId exampleRetagged) (tags_old exampleRetagged)
              (tags exampleRetagged) (0, []) =
            (None, (0, [(CreateTagsCall ''ami-1'' [(''env'', ''prod''), (''team'', ''x'')], None)]))"
    by (simp add: f Ec2UpdateTags_def removedTags_def updatedTags_def callCreateTags_def
                  exampleMeta_def scriptedEC2_def)
  from update_tags_then_description_if_nonempty[OF h1 h2 h3] obtain terr s1 where
    a: "Ec2UpdateTags (ec2conn ?M) (ResId exampleRetagged) (tags_old exampleRetagged)
              (tags exampleRetagged) (0, []) = (terr, s1)"
    and b: "case terr of
              Some e \<Rightarrow>
                snd (snd (snd ?X)) = snd s1 \<and>
                fst ?X = Some (ErrorString (''error updating AMI ('' @ ResId exampleRetagged @
                                            '') tags: '' @ Error e))
            | None \<Rightarrow>
                map fst (snd s1) =
                  (if removedTags (tags_old exampleRetagged) (tags exampleRetagged) \<noteq> []
                   then [DeleteTagsCall (ResId exampleRetagged)
                           (removedTags (tags_old exampleRetagged) (tags exampleRetagged))] else []) @
                  (if updatedTags (tags_old exampleRetagged) (tags exampleRetagged) \<noteq> []
                   then [CreateTagsCall (ResId exampleRetagged)
                           (updatedTags (tags_old exampleRetagged) (tags exampleRetagged))] else []) \<and>
                (\<exists>merr rest.
                   snd (snd (snd ?X)) = snd s1 @
                       (if description exampleRetagged \<noteq> []
                        then [(ModifyImageAttributeCall (ResId exampleRetagged)
                                 (description exampleRetagged), merr)] else []) @
                       rest \<and>
                   set (map fst rest) \<subseteq> {DescribeImagesCall (ResId exampleRetagged)})"
    by blast
  from a ev have t: "terr = None"
    and s: "s1 = (0, [(CreateTagsCall ''ami-1'' [(''env'', ''prod''), (''team'', ''x'')], None)])"
    by simp_all
  from b have "\<exists>merr rest.
      snd (snd (snd ?X)) =
        [(CreateTagsCall ''ami-1'' [(''env'', ''prod''), (''team'', ''x'')], None),
         (ModifyImageAttributeCall ''ami-1'' ''base image'', merr)] @ rest \<and>
      set (map fst rest) \<subseteq> {DescribeImagesCall ''ami-1''}"
    unfolding t s by (simp add: f)
  moreover have "description exampleRetagged \<noteq> []" by (simp add: f)
  ultimately show ?thesis using h1 h2 by blast
qed

text \<open>
  C5, as stated, fails: with the tags changed from \<open>{env: dev}\<close> to
  \<open>{env: prod, team: x}\<close> and the description \<open>base image\<close> unchanged, the update issues
  the apply-call for the tags and then an attribute-modify call for the description.
\<close>

theorem update_unchanged_description_counterexample:
  "description exampleRetagged = description_old exampleRetagged \<and>
   HasChangeTags exampleRetagged \<and>
   fst (resourceAwsAmiUpdate (exampleMeta describeAvailable deleteSucceeds) exampleRetagged (0, [])) = None \<and>
   snd (snd (snd (resourceAwsAmiUpdate (exampleMeta describeAvailable deleteSucceeds)
                    exampleRetagged (0, [])))) =
     [(CreateTagsCall ''ami-1'' [(''env'', ''prod''), (''team'', ''x'')], None),
      (ModifyImageAttributeCall ''ami-1'' ''base image'', None),
      (DescribeImagesCall ''ami-1'', None)]"
  by (simp add: resourceAwsAmiUpdate_def HasChangeTags_def exampleRetagged_def exampleData_def
        exampleMeta_def scriptedEC2_def Ec2UpdateTags_def removedTags_def updatedTags_def
        callCreateTags_def callDeleteTags_def callModifyImageAttribute_def
        resourceAwsAmiRead_def readRetryFunc_def callDescribeImages_def describeAvailable_def
        exampleImage_def ImageStateAvailable_def ImageStatePending_def ImageStateDeregistered_def
        readSetAttributes_def imageArn_def Let_def numeral_2_eq_2)

subsection \<open>The identity of the elements of the two nested sets\<close>

text \<open>
  C9, as the code has it. The code of an element of \<open>ebs_block_device\<close> is the hash of
  its device name and its snapshot id, the code of an element of
  \<open>ephemeral_block_device\<close> the hash of its device name and its virtual name. So two
  elements that agree on both have the same code whatever their other fields are and in
  whatever order they were declared, for every hash function; and under a hash function
  without collisions, two elements with the same device name and different snapshot ids
  (virtual names) have different codes.
\<close>

theorem set_identity_by_device_and_second_key:
  "(device_name a = device_name b \<and> snapshot_id a = snapshot_id b \<longrightarrow>
      ebsBlockDeviceSet h a = ebsBlockDeviceSet h b) \<and>
   (inj h \<and> device_name a = device_name b \<and> snapshot_id a \<noteq> snapshot_id b \<longrightarrow>
      ebsBlockDeviceSet h a \<noteq> ebsBlockDeviceSet h b) \<and>
   (eph_device_name p = eph_device_name q \<and> virtual_name p = virtual_name q \<longrightarrow>
      ephemeralBlockDeviceSet h p = ephemeralBlockDeviceSet h q) \<and>
   (inj h \<and> eph_device_name p = eph_device_name q \<and> virtual_name p \<noteq> virtual_name q \<longrightarrow>
      ephemeralBlockDeviceSet h p \<noteq> ephemeralBlockDeviceSet h q)"
  by (auto simp: ebsBlockDeviceSet_def ephemeralBlockDeviceSet_def dest!: injD)

theorem set_identity_by_device_and_second_key_witness:
  "device_name (exampleEbs ''/dev/sda1'' ''snap-1'' False) = device_name (exampleEbs ''/dev/sda1'' ''snap-1'' True) \<and>
   snapshot_id (exampleEbs ''/dev/sda1'' ''snap-1'' False) = snapshot_id (exampleEbs ''/dev/sda1'' ''snap-1'' True) \<and>
   exampleEbs ''/dev/sda1'' ''snap-1'' False \<noteq> exampleEbs ''/dev/sda1'' ''snap-1'' True \<and>
   ebsBlockDeviceSet textAsCode (exampleEbs ''/dev/sda1'' ''snap-1'' False) =
     ebsBlockDeviceSet textAsCode (exampleEbs ''/dev/sda1'' ''snap-1'' True) \<and>
   inj textAsCode \<and>
   device_name (exampleEbs ''/dev/sda1'' ''snap-1'' False) = device_name (exampleEbs ''/dev/sda1'' ''snap-2'' False) \<and>
   snapshot_id (exampleEbs ''/dev/sda1'' ''snap-1'' False) \<noteq> snapshot_id (exampleEbs ''/dev/sda1'' ''snap-2'' False) \<and>
   ebsBlockDeviceSet textAsCode (exampleEbs ''/dev/sda1'' ''snap-1'' False) \<noteq>
     ebsBlockDeviceSet textAsCode (exampleEbs ''/dev/sda1'' ''snap-2'' False) \<and>
   eph_device_name \<lparr>eph_device_name = ''/dev/sdb'', virtual_name = ''ephemeral0''\<rparr> =
     eph_device_name \<lparr>eph_device_name = ''/dev/sdb'', virtual_name = ''ephemeral1''\<rparr> \<and>
   virtual_name \<lparr>eph_device_name = ''/dev/sdb'', virtual_name = ''ephemeral0''\<rparr> \<noteq>
     virtual_name \<lparr>eph_device_name = ''/dev/sdb'', virtual_name = ''ephemeral1''\<rparr> \<and>
   ephemeralBlockDeviceSet textAsCode \<lparr>eph_device_name = ''/dev/sdb'', virtual_name = ''ephemeral0''\<rparr> \<noteq>
     ephemeralBlockDeviceSet textAsCode \<lparr>eph_device_name = ''/dev/sdb'', virtual_name = ''ephemeral1''\<rparr> \<and>
   ephemeralBlockDeviceSet textAsCode \<lparr>eph_device_name = ''/dev/sdb'', virtual_name = ''ephemeral0''\<rparr> =
     ephemeralBlockDeviceSet textAsCode \<lparr>eph_device_name = ''/dev/sdb'', virtual_name = ''ephemeral0''\<rparr>"
proof -
  let ?a = "exampleEbs ''/dev/sda1'' ''snap-1'' False"
  let ?b = "exampleEbs ''/dev/sda1'' ''snap-1'' True"
  let ?c = "exampleEbs ''/dev/sda1'' ''snap-2'' False"
  let ?p = "\<lparr>eph_device_name = ''/dev/sdb'', virtual_name = ''ephemeral0''\<rparr>"
  let ?q = "\<lparr>eph_device_name = ''/dev/sdb'', virtual_name = ''ephemeral1''\<rparr>"
  have i: "inj textAsCode" by (simp add: inj_def textAsCode_def)
  have ab: "device_name ?a = device_name ?b" "snapshot_id ?a = snapshot_id ?b" "?a \<noteq> ?b"
    by (simp_all add: exampleEbs_def)
  have ac: "device_name ?a = device_name ?c" "snapshot_id ?a \<noteq> snapshot_id ?c"
    by (simp_all add: exampleEbs_def)
  have pq: "eph_device_name ?p = eph_device_name ?q" "virtual_name ?p \<noteq> virtual_name ?q"
    by simp_all
  note t1 = set_identity_by_device_and_second_key[of ?a ?b textAsCode ?p ?p]
  note t2 = set_identity_by_device_and_second_key[of ?a ?c textAsCode ?p ?q]
  from t1 ab have r1: "ebsBlockDeviceSet textAsCode ?a = ebsBlockDeviceSet textAsCode ?b"
    and r4: "ephemeralBlockDeviceSet textAsCode ?p = ephemeralBlockDeviceSet textAsCode ?p" by blast+
  from t2 i ac pq have r2: "ebsBlockDeviceSet textAsCode ?a \<noteq> ebsBlockDeviceSet textAsCode ?c"
    and r3: "ephemeralBlockDeviceSet textAsCode ?p \<noteq> ephemeralBlockDeviceSet textAsCode ?q" by blast+
  show ?thesis using i ab ac pq r1 r2 r3 r4 by blast
qed

text \<open>
  C9, as stated, fails: two EBS elements with the device name \<open>/dev/sda1\<close> and the
  snapshot ids \<open>snap-1\<close> and \<open>snap-2\<close> are hashed from different texts, and so are two
  ephemeral elements with the device name \<open>/dev/sdb\<close> and different virtual names.
\<close>

theorem set_identity_device_name_alone_counterexample:
  "device_name (exampleEbs ''/dev/sda1'' ''snap-1'' False) =
     device_name (exampleEbs ''/dev/sda1'' ''snap-2'' False) \<and>
   ebsBlockDeviceSet textAsCode (exampleEbs ''/dev/sda1'' ''snap-1'' False) \<noteq>
     ebsBlockDeviceSet textAsCode (exampleEbs ''/dev/sda1'' ''snap-2'' False) \<and>
   eph_device_name \<lparr>eph_device_name = ''/dev/sdb'', virtual_name = ''ephemeral0''\<rparr> =
     eph_device_name \<lparr>eph_device_name = ''/dev/sdb'', virtual_name = ''ephemeral1''\<rparr> \<and>
   ephemeralBlockDeviceSet textAsCode \<lparr>eph_device_name = ''/dev/sdb'', virtual_name = ''ephemeral0''\<rparr> \<noteq>
     ephemeralBlockDeviceSet textAsCode \<lparr>eph_device_name = ''/dev/sdb'', virtual_name = ''ephemeral1''\<rparr>"
  by (simp add: ebsBlockDeviceSet_def ephemeralBlockDeviceSet_def exampleEbs_def textAsCode_def)

subsection \<open>Delete: the cascade over the snapshots\<close>

text \<open>
  \<open>Join\<close> puts the separator between any two neighbours, so a text joined from a first
  line, some lines and a last line begins with the first line, ends with the last, and
  holds every line between two separators.
\<close>

lemma Join_Cons:
  "xs \<noteq> [] \<Longrightarrow> Join (x # xs) sep = x @ sep @ Join xs sep"
  by (cases xs) simp_all

lemma Join_append:
  "as \<noteq> [] \<Longrightarrow> bs \<noteq> [] \<Longrightarrow> Join (as @ bs) sep = Join as sep @ sep @ Join bs sep"
proof (induction as)
  case Nil
  then show ?case by simp
next
  case (Cons a as)
  show ?case
  proof (cases "as = []")
    case True
    with Cons.prems show ?thesis by (simp add: Join_Cons)
  next
    case False
    with Cons show ?thesis by (simp add: Join_Cons)
  qed
qed

lemma Join_framed:
  "\<exists>mid. Join ([h] @ xs @ [f]) sep = h @ sep @ mid @ f"
proof (cases "xs = []")
  case True
  then show ?thesis by simp
next
  case False
  then have "Join ([h] @ xs @ [f]) sep = h @ sep @ (Join xs sep @ sep) @ f"
    by (simp add: Join_Cons Join_append)
  then show ?thesis by blast
qed

lemma Join_line:
  assumes "x \<in> set xs"
  shows "\<exists>pre post. Join ([h] @ xs @ [f]) sep = pre @ sep @ x @ sep @ post"
proof -
  from assms obtain ys zs where xs: "xs = ys @ x # zs" by (auto dest: split_list)
  have "Join ([h] @ xs @ [f]) sep = Join ((h # ys) @ (x # zs @ [f])) sep"
    by (simp add: xs)
  also have "\<dots> = Join (h # ys) sep @ sep @ Join (x # zs @ [f]) sep"
    by (rule Join_append) simp_all
  also have "Join (x # zs @ [f]) sep = x @ sep @ Join (zs @ [f]) sep"
    by (rule Join_Cons) simp
  finally show ?thesis by blast
qed

text \<open>
  C4. With \<open>manage_ebs_snapshots\<close> set and the deregistration successful, the calls after
  the deregistration are one \<open>DeleteSnapshot\<close> per element of \<open>ebs_block_device\<close> with a
  non-empty snapshot id, in order, whatever each of them returns. When some of them
  failed, the delete returns one error. Its text is the lines joined by newlines: the
  line "Errors while deleting associated EBS snapshots:", one line \<open>id: error\<close> per entry
  of the error map as Go ranges over it, and the line "These are no longer managed by
  Terraform and must be deleted manually."; so the text begins with the first of these
  and ends with the last, and for every snapshot id whose deletion failed it holds a
  whole line made of that id, a colon and the text of an error that the call for this id
  returned. The ids of the entries are exactly the ids of the failed calls; nothing is
  called after the snapshot deletions (no call undoes the deregistration) and the
  resource data is unchanged. The order in which Go ranges over the map is left open: it
  yields the entries of the map.
\<close>

theorem delete_cascade_aggregates_snapshot_errors:
  assumes manage: "manage_ebs_snapshots d"
      and dereg: "DeregisterImage (ec2conn meta) (ResId d) w = (None, w1)"
      and range: "\<And>errs. set (mapRange meta errs) = set errs"
      and run: "resourceAwsAmiDelete meta d (w, []) = (r, d', (w', l))"
  shows "take (Suc (length [sid \<leftarrow> map snapshot_id (ebs_block_device d). sid \<noteq> []])) (map fst l) =
           DeregisterImageCall (ResId d) #
           map DeleteSnapshotCall [sid \<leftarrow> map snapshot_id (ebs_block_device d). sid \<noteq> []] \<and>
         ((\<exists>sid e. (DeleteSnapshotCall sid, Some e) \<in> set l) \<longrightarrow>
            (\<exists>ranged msg.
               r = Some (ErrorString msg) \<and>
               msg = Join (snapshotErrParts ranged) [CHR 0x0A] \<and>
               msg = Join ([''Errors while deleting associated EBS snapshots:''] @
                           map (\<lambda>(sid, e). sid @ '': '' @ Error e) ranged @
                           [''These are no longer managed by Terraform and must be deleted manually.''])
                          [CHR 0x0A] \<and>
               (\<exists>mid. msg = ''Errors while deleting associated EBS snapshots:'' @ [CHR 0x0A] @ mid @
                            ''These are no longer managed by Terraform and must be deleted manually.'') \<and>
               (\<forall>sid. (\<exists>e. (DeleteSnapshotCall sid, Some e) \<in> set l) \<longrightarrow>
                  (\<exists>e pre post. (DeleteSnapshotCall sid, Some e) \<in> set l \<and>
                     msg = pre @ [CHR 0x0A] @ (sid @ '': '' @ Error e) @ [CHR 0x0A] @ post)) \<and>
               fst ` set ranged = {sid. \<exists>e. (DeleteSnapshotCall sid, Some e) \<in> set l} \<and>
               (\<forall>sid e. (sid, e) \<in> set ranged \<longrightarrow> (DeleteSnapshotCall sid, Some e) \<in> set l) \<and>
               map fst l = DeregisterImageCall (ResId d) #
                 map DeleteSnapshotCall [sid \<leftarrow> map snapshot_id (ebs_block_device d). sid \<noteq> []] \<and>
               d' = d))"
proof -
  let ?c = "ec2conn meta" and ?i = "ResId d"
  let ?sids = "[sid \<leftarrow> map snapshot_id (ebs_block_device d). sid \<noteq> []]"
  let ?h = "''Errors while deleting associated EBS snapshots:''"
  let ?f = "''These are no longer managed by Terraform and must be deleted manually.''"
  let ?line = "\<lambda>(sid, e). sid @ '': '' @ Error e"
  from Delete_after_deregister[OF dereg run] manage obtain errs s2 new where
    s2: "snd s2 = (DeregisterImageCall ?i, None) # new"
    and calls: "map fst new = map DeleteSnapshotCall ?sids"
    and dom: "fst ` set errs = {sid. \<exists>e. (DeleteSnapshotCall sid, Some e) \<in> set new}"
    and errs: "\<forall>sid e. (sid, e) \<in> set errs \<longrightarrow> (DeleteSnapshotCall sid, Some e) \<in> set new"
    and d': "d' = d"
    and res: "if errs \<noteq> []
              then r = Some (ErrorString (Join (snapshotErrParts (mapRange meta errs)) [CHR 0x0A])) \<and>
                   (w', l) = s2
              else resourceAwsAmiWaitForDestroy (TimeoutDelete d) ?i ?c s2 = (r, (w', l))"
    by (auto split: if_splits)
  have len: "length new = length ?sids"
    using calls by (metis length_map)
  show ?thesis
  proof (cases "errs = []")
    case False
    let ?ranged = "mapRange meta errs"
    let ?msg = "Join (snapshotErrParts ?ranged) [CHR 0x0A]"
    from False res have r: "r = Some (ErrorString ?msg)"
      and l: "l = snd s2" by (auto simp: prod_eq_iff)
    have log: "map fst l = DeregisterImageCall ?i # map DeleteSnapshotCall ?sids"
      using l s2 calls by simp
    have failed: "{sid. \<exists>e. (DeleteSnapshotCall sid, Some e) \<in> set l} =
                  {sid. \<exists>e. (DeleteSnapshotCall sid, Some e) \<in> set new}"
      using l s2 by auto
    have a: "fst ` set ?ranged = {sid. \<exists>e. (DeleteSnapshotCall sid, Some e) \<in> set l}"
      using dom failed range by simp
    have b: "\<forall>sid e. (sid, e) \<in> set ?ranged \<longrightarrow> (DeleteSnapshotCall sid, Some e) \<in> set l"
      using errs range l s2 by auto
    have parts: "?msg = Join ([?h] @ map ?line ?ranged @ [?f]) [CHR 0x0A]"
      by (simp add: snapshotErrParts_def)
    have framed: "\<exists>mid. ?msg = ?h @ [CHR 0x0A] @ mid @ ?f"
      unfolding parts by (rule Join_framed)
    have lines: "\<forall>sid. (\<exists>e. (DeleteSnapshotCall sid, Some e) \<in> set l) \<longrightarrow>
                  (\<exists>e pre post. (DeleteSnapshotCall sid, Some e) \<in> set l \<and>
                     ?msg = pre @ [CHR 0x0A] @ (sid @ '': '' @ Error e) @ [CHR 0x0A] @ post)"
    proof (intro allI impI)
      fix sid
      assume "\<exists>e. (DeleteSnapshotCall sid, Some e) \<in> set l"
      then have "sid \<in> fst ` set ?ranged" using a by simp
      then obtain e where m: "(sid, e) \<in> set ?ranged" by auto
      then have "sid @ '': '' @ Error e \<in> set (map ?line ?ranged)" by force
      from Join_line[OF this, of ?h ?f "[CHR 0x0A]"] obtain pre post where
        "?msg = pre @ [CHR 0x0A] @ (sid @ '': '' @ Error e) @ [CHR 0x0A] @ post"
        unfolding parts by auto
      moreover from m b have "(DeleteSnapshotCall sid, Some e) \<in> set l" by blast
      ultimately show "\<exists>e pre post. (DeleteSnapshotCall sid, Some e) \<in> set l \<and>
                     ?msg = pre @ [CHR 0x0A] @ (sid @ '': '' @ Error e) @ [CHR 0x0A] @ post"
        by blast
    qed
    have "\<exists>ranged msg.
               r = Some (ErrorString msg) \<and>
               msg = Join (snapshotErrParts ranged) [CHR 0x0A] \<and>
               msg = Join ([?h] @ map ?line ranged @ [?f]) [CHR 0x0A] \<and>
               (\<exists>mid. msg = ?h @ [CHR 0x0A] @ mid @ ?f) \<and>
               (\<forall>sid. (\<exists>e. (DeleteSnapshotCall sid, Some e) \<in> set l) \<longrightarrow>
                  (\<exists>e pre post. (DeleteSnapshotCall sid, Some e) \<in> set l \<and>
                     msg = pre @ [CHR 0x0A] @ (sid @ '': '' @ Error e) @ [CHR 0x0A] @ post)) \<and>
               fst ` set ranged = {sid. \<exists>e. (DeleteSnapshotCall sid, Some e) \<in> set l} \<and>
               (\<forall>sid e. (sid, e) \<in> set ranged \<longrightarrow> (DeleteSnapshotCall sid, Some e) \<in> set l) \<and>
               map fst l = DeregisterImageCall ?i # map DeleteSnapshotCall ?sids \<and>
               d' = d"
      using r parts framed lines a b log d'
      by (intro exI[of _ ?ranged] exI[of _ ?msg]) blast
    moreover have "take (Suc (length ?sids)) (map fst l) =
                     DeregisterImageCall ?i # map DeleteSnapshotCall ?sids"
      using log by simp
    ultimately show ?thesis by blast
  next
    case True
    with res have wt: "resourceAwsAmiWaitForDestroy (TimeoutDelete d) ?i ?c s2 = (r, (w', l))" by simp
    from WaitForDestroy_log[OF wt] obtain n3 where
      n3: "l = snd s2 @ n3" "set (map fst n3) \<subseteq> {DescribeImagesCall ?i}" by auto
    from True dom have nofail_new: "\<not> (\<exists>sid e. (DeleteSnapshotCall sid, Some e) \<in> set new)" by auto
    have nofail: "\<not> (\<exists>sid e. (DeleteSnapshotCall sid, Some e) \<in> set l)"
    proof
      assume "\<exists>sid e. (DeleteSnapshotCall sid, Some e) \<in> set l"
      then obtain sid e where m: "(DeleteSnapshotCall sid, Some e) \<in> set l" by blast
      with n3(1) s2 nofail_new have "(DeleteSnapshotCall sid, Some e) \<in> set n3" by auto
      then have "DeleteSnapshotCall sid \<in> set (map fst n3)" by force
      with n3(2) show False by auto
    qed
    have "take (Suc (length ?sids)) (map fst l) =
            DeregisterImageCall ?i # map DeleteSnapshotCall ?sids"
      using n3(1) s2 calls len by simp
    with nofail show ?thesis by blast
  qed
qed

theorem delete_cascade_aggregates_snapshot_errors_witness:
  "manage_ebs_snapshots exampleThreeSnapshots \<and>
   DeregisterImage (ec2conn (exampleMeta describeGone refuseS2)) (ResId exampleThreeSnapshots) 0 = (None, 0) \<and>
   (\<forall>errs. set (mapRange (exampleMeta describeGone refuseS2) errs) = set errs) \<and>
   resourceAwsAmiDelete (exampleMeta describeGone refuseS2) exampleThreeSnapshots (0, []) =
     (Some (ErrorString
        (''Errors while deleting associated EBS snapshots:'' @ [CHR 0x0A] @
         ''s2: InvalidSnapshot.InUse: The snapshot is in use'' @ [CHR 0x0A] @
         ''These are no longer managed by Terraform and must be deleted manually.'')),
      exampleThreeSnapshots,
      (0, [(DeregisterImageCall ''ami-1'', None),
           (DeleteSnapshotCall ''s1'', None),
           (DeleteSnapshotCall ''s2'', Some snapshotInUse),
           (DeleteSnapshotCall ''s3'', None)])) \<and>
   (\<exists>e pre post.
      (DeleteSnapshotCall ''s2'', Some e) \<in>
        set [(DeregisterImageCall ''ami-1'', None),
             (DeleteSnapshotCall ''s1'', None),
             (DeleteSnapshotCall ''s2'', Some snapshotInUse),
             (DeleteSnapshotCall ''s3'', None)] \<and>
      ''Errors while deleting associated EBS snapshots:'' @ [CHR 0x0A] @
      ''s2: InvalidSnapshot.InUse: The snapshot is in use'' @ [CHR 0x0A] @
      ''These are no longer managed by Terraform and must be deleted manually.'' =
        pre @ [CHR 0x0A] @ (''s2'' @ '': '' @ Error e) @ [CHR 0x0A] @ post)"
proof -
  let ?M = "exampleMeta describeGone refuseS2"
  let ?L = "[(DeregisterImageCall ''ami-1'', None),
             (DeleteSnapshotCall ''s1'', None),
             (DeleteSnapshotCall ''s2'', Some snapshotInUse),
             (DeleteSnapshotCall ''s3'', None)]"
  let ?T = "''Errors while deleting associated EBS snapshots:'' @ [CHR 0x0A] @
            ''s2: InvalidSnapshot.InUse: The snapshot is in use'' @ [CHR 0x0A] @
            ''These are no longer managed by Terraform and must be deleted manually.''"
  have h0: "manage_ebs_snapshots exampleThreeSnapshots"
    by (simp add: exampleThreeSnapshots_def exampleData_def)
  have h1: "DeregisterImage (ec2conn ?M) (ResId exampleThreeSnapshots) 0 = (None, 0)"
    by (simp add: exampleMeta_def scriptedEC2_def)
  have h2: "\<And>errs. set (mapRange ?M errs) = set errs"
    by (simp add: exampleMeta_def)
  have h3: "resourceAwsAmiDelete ?M exampleThreeSnapshots (0, []) =
              (Some (ErrorString ?T), exampleThreeSnapshots, (0, ?L))"
    by (simp add: example_eval snapshotErrParts_def)
  have fails: "\<exists>sid e. (DeleteSnapshotCall sid, Some e) \<in> set ?L" by auto
  from delete_cascade_aggregates_snapshot_errors[OF h0 h1 h2 h3] fails
  obtain msg where
    t: "Some (ErrorString ?T) = Some (ErrorString msg)"
    and lines: "\<forall>sid. (\<exists>e. (DeleteSnapshotCall sid, Some e) \<in> set ?L) \<longrightarrow>
                  (\<exists>e pre post. (DeleteSnapshotCall sid, Some e) \<in> set ?L \<and>
                     msg = pre @ [CHR 0x0A] @ (sid @ '': '' @ Error e) @ [CHR 0x0A] @ post)"
    by blast
  from t have msg: "msg = ?T" by simp
  have "\<exists>e. (DeleteSnapshotCall ''s2'', Some e) \<in> set ?L" by auto
  with lines have "\<exists>e pre post. (DeleteSnapshotCall ''s2'', Some e) \<in> set ?L \<and>
                     msg = pre @ [CHR 0x0A] @ (''s2'' @ '': '' @ Error e) @ [CHR 0x0A] @ post"
    by blast
  then have "\<exists>e pre post. (DeleteSnapshotCall ''s2'', Some e) \<in> set ?L \<and>
                     ?T = pre @ [CHR 0x0A] @ (''s2'' @ '': '' @ Error e) @ [CHR 0x0A] @ post"
    unfolding msg .
  with h0 h1 h2 h3 show ?thesis by blast
qed

end
